theory Spec2Isabelle
  imports Complex_Main "HOL-Library.Log_Nat"
begin

section \<open>Number values\<close>

text \<open>
  The TypeScript type \<^verbatim>\<open>number\<close> is IEEE 754 binary64.  A finite value is
  represented by the real number it denotes; the two infinities and NaN are separate
  constructors.  The two zeros are one value: comparisons, template literals and
  \<^verbatim>\<open>JSON.stringify\<close> do not tell them apart, and a zero divisor is taken as
  positive (the program divides by task counts, 10, 100 and the number of weeks only).

  Every arithmetic operation computes the exact real result and rounds it with
  \<open>fl\<close>: round to nearest, ties to even, 53 significant bits, gradual
  underflow below \<open>2 powi -1022\<close>, overflow to an infinity from \<open>2 ^ 1024\<close> on.
  A decimal literal of the source denotes the rounding of its value, so \<^verbatim>\<open>0.01\<close> is
  \<open>fl (1 / 100)\<close>.
\<close>

datatype number = Fin real | PInf | NInf | NaN

definition expo :: "real \<Rightarrow> int" where
  \<comment> \<open>the binary exponent of a positive real: \<open>2 powi expo x \<le> x < 2 powi (expo x + 1)\<close>\<close>
  "expo x = (if 1 \<le> x then bitlen \<lfloor>x\<rfloor> - 1 else - bitlen (\<lceil>1 / x\<rceil> - 1))"

definition rhe :: "real \<Rightarrow> int" where
  \<comment> \<open>round to the nearest integer, a tie to the even one\<close>
  "rhe q = (let f = \<lfloor>q\<rfloor>; d = q - of_int f
            in if d < 1 / 2 then f else if 1 / 2 < d then f + 1
               else if even f then f else f + 1)"

definition ulp :: "real \<Rightarrow> real" where
  \<comment> \<open>the spacing of binary64 values around a positive real\<close>
  "ulp x = power_int 2 (max (expo x) (- 1022) - 52)"

definition fl_val :: "real \<Rightarrow> real" where
  "fl_val x = of_int (rhe (x / ulp x)) * ulp x"

definition fl_pos :: "real \<Rightarrow> number" where
  "fl_pos x = (if 2 ^ 1024 \<le> fl_val x then PInf else Fin (fl_val x))"

fun neg :: "number \<Rightarrow> number" where
  "neg (Fin r) = Fin (- r)"
| "neg PInf = NInf"
| "neg NInf = PInf"
| "neg NaN = NaN"

definition fl :: "real \<Rightarrow> number" where
  "fl x = (if x = 0 then Fin 0 else if 0 < x then fl_pos x else neg (fl_pos (- x)))"

definition is_number :: "real \<Rightarrow> bool" where
  \<comment> \<open>the real is a binary64 value\<close>
  "is_number x = (fl x = Fin x)"

definition inf_of_sign :: "real \<Rightarrow> number" where
  "inf_of_sign s = (if s = 0 then NaN else if 0 < s then PInf else NInf)"

fun sign_of :: "number \<Rightarrow> real" where
  "sign_of (Fin a) = sgn a"
| "sign_of PInf = 1"
| "sign_of NInf = - 1"
| "sign_of NaN = 0"

fun fadd :: "number \<Rightarrow> number \<Rightarrow> number" where
  "fadd (Fin a) (Fin b) = fl (a + b)"
| "fadd NaN _ = NaN"
| "fadd _ NaN = NaN"
| "fadd PInf NInf = NaN"
| "fadd NInf PInf = NaN"
| "fadd PInf _ = PInf"
| "fadd _ PInf = PInf"
| "fadd NInf _ = NInf"
| "fadd _ NInf = NInf"

definition fsub :: "number \<Rightarrow> number \<Rightarrow> number" where
  "fsub x y = fadd x (neg y)"

fun fmul :: "number \<Rightarrow> number \<Rightarrow> number" where
  "fmul (Fin a) (Fin b) = fl (a * b)"
| "fmul NaN _ = NaN"
| "fmul _ NaN = NaN"
| "fmul x y = inf_of_sign (sign_of x * sign_of y)"

fun fdiv :: "number \<Rightarrow> number \<Rightarrow> number" where
  "fdiv (Fin a) (Fin b) = (if b = 0 then inf_of_sign a else fl (a / b))"
| "fdiv NaN _ = NaN"
| "fdiv _ NaN = NaN"
| "fdiv (Fin a) _ = Fin 0"
| "fdiv x (Fin b) = inf_of_sign (sign_of x * (if b < 0 then - 1 else 1))"
| "fdiv _ _ = NaN"

fun Math_round :: "number \<Rightarrow> number" where
  \<comment> \<open>the nearest integer, a tie towards \<open>+\<infinity>\<close>\<close>
  "Math_round (Fin a) = Fin (of_int \<lfloor>a + 1 / 2\<rfloor>)"
| "Math_round x = x"

fun Math_abs :: "number \<Rightarrow> number" where
  "Math_abs (Fin a) = Fin \<bar>a\<bar>"
| "Math_abs NInf = PInf"
| "Math_abs x = x"

fun num_less :: "number \<Rightarrow> number \<Rightarrow> bool" where
  "num_less (Fin a) (Fin b) = (a < b)"
| "num_less NaN _ = False"
| "num_less _ NaN = False"
| "num_less _ NInf = False"
| "num_less PInf _ = False"
| "num_less _ _ = True"

fun num_le :: "number \<Rightarrow> number \<Rightarrow> bool" where
  "num_le (Fin a) (Fin b) = (a \<le> b)"
| "num_le NaN _ = False"
| "num_le _ NaN = False"
| "num_le NInf _ = True"
| "num_le _ PInf = True"
| "num_le _ _ = False"

definition num_eq :: "number \<Rightarrow> number \<Rightarrow> bool" where
  \<comment> \<open>the operator \<^verbatim>\<open>===\<close> on numbers\<close>
  "num_eq x y = (x \<noteq> NaN \<and> x = y)"

section \<open>Data model\<close>

text \<open>
  Strings are lists of characters; the two characters of the templates outside ASCII
  are written as their UTF-8 bytes.
\<close>

definition em_dash :: string where
  "em_dash = [CHR 0xE2, CHR 0x80, CHR 0x94]"

definition ge_sign :: string where
  "ge_sign = [CHR 0xE2, CHR 0x89, CHR 0xA5]"

fun decimal :: "nat \<Rightarrow> string" where
  \<comment> \<open>the string of an integer counter in a template literal\<close>
  "decimal n = (if n < 10 then [''0123456789'' ! n]
                else decimal (n div 10) @ [''0123456789'' ! (n mod 10)])"

record PlanInputs =
  in_topic :: string
  in_level :: string
  in_goal :: string
  in_weeks :: number
  in_hours_per_week :: number
  in_constraints :: string

record Task =
  title :: string
  effort_hours :: number
  deliverable :: string

record Week =
  week :: number
  focus :: string
  hours :: number
  tasks :: "Task list"
  checkpoint :: string

record LearningPlan =
  topic :: string
  level :: string
  goal :: string
  weeks :: number
  hours_per_week :: number
  plan :: "Week list"

datatype ValidationErrorType = weeks_mismatch | hours_mismatch | hours_exceeded

record ValidationError =
  type :: ValidationErrorType
  message :: string

section \<open>The validator (schema.ts)\<close>

text \<open>
  \<^verbatim>\<open>z.number().positive()\<close> and \<^verbatim>\<open>z.number().int().positive()\<close> of the
  schemas: a number that is not NaN and greater than 0, and for \<^verbatim>\<open>int\<close> an integer.
  Strings need no check in a typed model.
\<close>

definition z_positive :: "number \<Rightarrow> bool" where
  "z_positive x = num_less (Fin 0) x"

definition z_int_positive :: "number \<Rightarrow> bool" where
  "z_int_positive x = (case x of Fin r \<Rightarrow> r = of_int \<lfloor>r\<rfloor> \<and> 0 < r | _ \<Rightarrow> False)"

definition TaskSchema :: "Task \<Rightarrow> bool" where
  "TaskSchema t = z_positive (effort_hours t)"

definition WeekSchema :: "Week \<Rightarrow> bool" where
  "WeekSchema w = (z_int_positive (week w) \<and> z_positive (hours w)
                   \<and> list_all TaskSchema (tasks w) \<and> 1 \<le> length (tasks w))"

definition LearningPlanSchema :: "LearningPlan \<Rightarrow> bool" where
  "LearningPlanSchema p = (z_int_positive (weeks p) \<and> z_positive (hours_per_week p)
                           \<and> list_all WeekSchema (plan p) \<and> 1 \<le> length (plan p))"

definition round2 :: "number \<Rightarrow> number" where
  \<comment> \<open>\<^verbatim>\<open>Math.round(x * 100) / 100\<close>\<close>
  "round2 x = fdiv (Math_round (fmul x (Fin 100))) (Fin 100)"

definition taskSum :: "Task list \<Rightarrow> number" where
  \<comment> \<open>\<^verbatim>\<open>tasks.reduce((sum, t) => sum + t.effort_hours, 0)\<close>\<close>
  "taskSum ts = foldl (\<lambda>s t. fadd s (effort_hours t)) (Fin 0) ts"

text \<open>
  \<open>toString\<close> is ECMAScript's conversion of a number to a string inside a template
  literal; the validator is defined for any such conversion.
\<close>

definition validate_week ::
  "(number \<Rightarrow> string) \<Rightarrow> LearningPlan \<Rightarrow> ValidationError list \<Rightarrow> Week \<Rightarrow> ValidationError list" where
  \<comment> \<open>the body of the loop over \<^verbatim>\<open>plan.plan\<close>; \<^verbatim>\<open>errors.push\<close> appends\<close>
  "validate_week toString p errors w =
     (let roundedSum = round2 (taskSum (tasks w));
          roundedHours = round2 (hours w);
          errors1 =
            (if num_less (fl (1 / 100)) (Math_abs (fsub roundedSum roundedHours)) then
               errors @ [\<lparr>type = hours_mismatch,
                 message = ''Week '' @ toString (week w) @ '': 'hours' is '' @ toString roundedHours
                   @ '' but task effort_hours sum to '' @ toString roundedSum
                   @ ''. They must be equal.''\<rparr>]
             else errors)
      in if num_less (hours_per_week p) roundedHours then
           errors1 @ [\<lparr>type = hours_exceeded,
             message = ''Week '' @ toString (week w) @ '': '' @ toString roundedHours
               @ ''h exceeds the hours_per_week limit of '' @ toString (hours_per_week p)
               @ ''h.''\<rparr>]
         else errors1)"

definition validatePlan :: "(number \<Rightarrow> string) \<Rightarrow> LearningPlan \<Rightarrow> ValidationError list" where
  "validatePlan toString p =
     (let errors =
        (if \<not> num_eq (Fin (real (length (plan p)))) (weeks p) then
           [\<lparr>type = weeks_mismatch,
             message = ''plan array has '' @ toString (Fin (real (length (plan p))))
               @ '' entries but 'weeks' is '' @ toString (weeks p)
               @ ''. They must match exactly.''\<rparr>]
         else [])
      in foldl (validate_week toString p) errors (plan p))"

section \<open>The generator (planner.ts)\<close>

datatype Phase = foundation | development | application

definition phaseOf :: "number \<Rightarrow> number \<Rightarrow> Phase" where
  "phaseOf w total' =
     (if num_eq total' (Fin 1) then application
      else if num_eq total' (Fin 2) then (if num_eq w (Fin 1) then foundation else application)
      else let ratio = fdiv w total'
           in if num_le ratio (fdiv (Fin 1) (Fin 3)) then foundation
              else if num_le ratio (fdiv (Fin 2) (Fin 3)) then development
              else application)"

definition tasksPerWeek :: "number \<Rightarrow> nat" where
  "tasksPerWeek hoursPerWeek =
     (if num_le hoursPerWeek (Fin 4) then 2
      else if num_le hoursPerWeek (Fin 14) then 3
      else 4)"

definition distributeHours :: "number \<Rightarrow> nat \<Rightarrow> number list" where
  "distributeHours total' count =
     (let unit = fdiv (Math_round (fmul (fdiv total' (Fin (real count))) (Fin 10))) (Fin 10);
          hrs = replicate count unit;
          rest = fdiv (Math_round (fmul (fsub total' (fmul unit (Fin (real count - 1)))) (Fin 100)))
                   (Fin 100)
      in if count = 0 then hrs else hrs[count - 1 := rest])"

record Tpl =
  tpl_title :: string
  tpl_deliverable :: string

definition foundationBank :: "string \<Rightarrow> nat \<Rightarrow> Tpl list" where
  "foundationBank topic' idx =
     (let banks =
       [[\<lparr>tpl_title = ''Set up '' @ topic' @ '' development environment and toolchain'',
          tpl_deliverable = ''Working local environment verified with a hello-world program''\<rparr>,
        \<lparr>tpl_title = ''Study '' @ topic' @ '' core concepts and mental model'',
          tpl_deliverable = ''Written notes covering the 5 most important concepts''\<rparr>,
        \<lparr>tpl_title = ''Complete beginner '' @ topic' @ '' exercises'',
          tpl_deliverable = ''3+ exercises solved and committed to a repo''\<rparr>,
        \<lparr>tpl_title = ''Build a minimal demo project in '' @ topic',
          tpl_deliverable = ''Runnable project with a short README''\<rparr>],

        [\<lparr>tpl_title = ''Read the official '' @ topic' @ '' getting-started guide'',
          tpl_deliverable = ''Annotated notes and working code samples from the guide''\<rparr>,
        \<lparr>tpl_title = ''Explore '' @ topic' @ '' syntax and common idioms through examples'',
          tpl_deliverable = ''Personal cheat-sheet of the most common patterns''\<rparr>,
        \<lparr>tpl_title = ''Reproduce 3 programs from the '' @ topic' @ '' documentation'',
          tpl_deliverable = ''3 working programs with comments explaining each line''\<rparr>,
        \<lparr>tpl_title = ''Identify and fill 3 knowledge gaps from this week'',
          tpl_deliverable = ''Gap list with links to resources and notes for each''\<rparr>]]
      in banks ! (idx mod length banks))"

definition developmentBank :: "string \<Rightarrow> nat \<Rightarrow> Tpl list" where
  "developmentBank topic' idx =
     (let banks =
       [[\<lparr>tpl_title = ''Study '' @ topic' @ '' data structures and common design patterns'',
          tpl_deliverable = ''Notes plus at least 2 implemented examples''\<rparr>,
        \<lparr>tpl_title = ''Build a feature-complete module using '' @ topic',
          tpl_deliverable = ''Tested module with passing unit tests''\<rparr>,
        \<lparr>tpl_title = ''Refactor previous code applying '' @ topic' @ '' best practices'',
          tpl_deliverable = ''Pull request or commit documenting every improvement''\<rparr>,
        \<lparr>tpl_title = ''Read and analyse a popular open-source '' @ topic' @ '' project'',
          tpl_deliverable = ''Summary of 3 patterns or techniques discovered''\<rparr>],

        [\<lparr>tpl_title = ''Study '' @ topic' @ '' error handling and edge-case strategies'',
          tpl_deliverable = ''Error-handling guide with annotated code examples''\<rparr>,
        \<lparr>tpl_title = ''Explore the '' @ topic' @ '' standard library and ecosystem'',
          tpl_deliverable = ''Curated list of 5 useful libraries with usage notes''\<rparr>,
        \<lparr>tpl_title = ''Write tests for the module built last week'',
          tpl_deliverable = ''Test suite achieving >80% coverage''\<rparr>,
        \<lparr>tpl_title = ''Solve 5 intermediate '' @ topic' @ '' exercises'',
          tpl_deliverable = ''Solutions with written explanation of each approach''\<rparr>],

        [\<lparr>tpl_title = ''Study '' @ topic' @ '' performance patterns and profiling tools'',
          tpl_deliverable = ''Benchmark comparing two implementations with analysis''\<rparr>,
        \<lparr>tpl_title = ''Build a CLI utility in '' @ topic',
          tpl_deliverable = ''Usable CLI with help text, flags, and error handling''\<rparr>,
        \<lparr>tpl_title = ''Peer-review or self-review an earlier project'',
          tpl_deliverable = ''Code-review checklist with all action items resolved''\<rparr>,
        \<lparr>tpl_title = ''Document a '' @ topic' @ '' mini-library with a public API'',
          tpl_deliverable = ''Library with README, usage examples, and passing tests''\<rparr>]]
      in banks ! (idx mod length banks))"

definition applicationBank :: "string \<Rightarrow> string \<Rightarrow> nat \<Rightarrow> nat \<Rightarrow> Tpl list" where
  "applicationBank topic' goal' idx totalAppWeeks =
     (let isFirst = (idx = 0);
          isLast = (int idx = int totalAppWeeks - 1)
      in if isFirst then
       [\<lparr>tpl_title = ''Design the capstone project architecture for goal: \"'' @ goal' @ ''\"'',
          tpl_deliverable = ''Architecture diagram, feature list, and tech-decision log''\<rparr>,
        \<lparr>tpl_title = ''Implement the core skeleton of the capstone project'',
          tpl_deliverable = ''Bootstrapped repo with main modules stubbed out''\<rparr>,
        \<lparr>tpl_title = ''Identify '' @ topic' @ '' skills still needed for the capstone'',
          tpl_deliverable = ''Skills-gap list with a targeted study plan per gap''\<rparr>,
        \<lparr>tpl_title = ''Set up CI and project tooling'',
          tpl_deliverable = ''Automated tests running on every push''\<rparr>]
      else if isLast then
       [\<lparr>tpl_title = ''Complete and polish the capstone project'',
          tpl_deliverable = ''Deployed or packaged project with full documentation''\<rparr>,
        \<lparr>tpl_title = ''Write a project retrospective: what you learned and what's next'',
          tpl_deliverable = ''Published blog post or README retrospective section''\<rparr>,
        \<lparr>tpl_title = ''Share the project and collect feedback'',
          tpl_deliverable = ''Feedback collected from '' @ ge_sign @ ''2 peers or community members''\<rparr>,
        \<lparr>tpl_title = ''Create a personal roadmap for continued growth'',
          tpl_deliverable = ''Next-steps document listing 3 concrete future goals''\<rparr>]
      else
       [\<lparr>tpl_title = ''Implement the next planned feature set'',
          tpl_deliverable = ''Feature complete, tested, and merged to main branch''\<rparr>,
        \<lparr>tpl_title = ''Integrate '' @ topic' @ '' advanced techniques from the development phase'',
          tpl_deliverable = ''Refactored capstone section with integration documented''\<rparr>,
        \<lparr>tpl_title = ''Write integration tests and fix any regressions'',
          tpl_deliverable = ''Full test suite green with no known open bugs''\<rparr>,
        \<lparr>tpl_title = ''Update project documentation and README'',
          tpl_deliverable = ''Clear README with usage instructions, examples, and screenshots''\<rparr>])"

definition focusLine :: "Phase \<Rightarrow> nat \<Rightarrow> string \<Rightarrow> string \<Rightarrow> string" where
  "focusLine phase idx topic' goal' =
     (if phase = foundation then
        (if idx = 0 then ''Introduction & Setup '' @ em_dash @ '' '' @ topic'
         else topic' @ '' Fundamentals '' @ em_dash @ '' Part '' @ decimal (idx + 1))
      else if phase = development then
        (let labels =
           [''Core Patterns '' @ em_dash @ '' '' @ topic',
            ''Error Handling & Testing '' @ em_dash @ '' '' @ topic',
            ''Ecosystem & Performance '' @ em_dash @ '' '' @ topic',
            ''Advanced Techniques '' @ em_dash @ '' '' @ topic']
         in labels ! (idx mod length labels))
      else
        (let labels =
           [''Project Design & Kickoff'',
            ''Core Feature Implementation'',
            ''Integration & Quality'',
            ''Final Polish & Portfolio'']
         in labels ! (min idx (length labels - 1))))"

definition checkpoint_text :: "Phase \<Rightarrow> nat \<Rightarrow> string \<Rightarrow> string \<Rightarrow> string" where
  "checkpoint_text phase idx topic' goal' =
     (if phase = foundation then
        (if idx = 0 then ''Can explain what '' @ topic' @ '' is used for and run a simple program without help''
         else ''Can write a basic '' @ topic' @ '' program independently without consulting notes'')
      else if phase = development then
        (let checks =
           [''Can apply '' @ topic' @ '' patterns to a new problem without referring to notes'',
            ''Can handle errors and write tests for '' @ topic' @ '' code confidently'',
            ''Can choose the right '' @ topic' @ '' library for a given requirement'',
            ''Can optimise and document '' @ topic' @ '' code to a production standard'']
         in checks ! (idx mod length checks))
      else ''Capstone progress demonstrates ability to: '' @ goal')"

text \<open>
  \<^verbatim>\<open>Array.from({ length: weeks }, ...)\<close> takes \<open>ToLength weeks\<close> as the length of
  the array and raises \<^verbatim>\<open>RangeError\<close> when that is not an array length, that is
  from \<open>2 ^ 32\<close> on.
\<close>

datatype error = RangeError

definition array_length :: "number \<Rightarrow> error + nat" where
  "array_length n =
     (case n of
        NaN \<Rightarrow> Inr 0
      | NInf \<Rightarrow> Inr 0
      | PInf \<Rightarrow> Inl RangeError
      | Fin r \<Rightarrow> if r < 1 then Inr 0
                 else if 2 ^ 32 \<le> \<lfloor>r\<rfloor> then Inl RangeError
                 else Inr (nat \<lfloor>r\<rfloor>))"

text \<open>
  The state of the loop of \<open>generatePlan\<close>: the occurrence counters \<^verbatim>\<open>phaseIdx\<close>
  and the weeks pushed so far.
\<close>

record gen_state =
  phaseIdx :: "Phase \<Rightarrow> nat"
  weeks_acc :: "Week list"

definition week_step :: "PlanInputs \<Rightarrow> nat \<Rightarrow> nat \<Rightarrow> gen_state \<Rightarrow> nat \<Rightarrow> gen_state" where
  \<comment> \<open>the body of \<^verbatim>\<open>for (let w = 1; w <= weeks; w++)\<close>\<close>
  "week_step inputs nTasks appWeekCount s w =
     (let phase = phaseOf (Fin (real w)) (in_weeks inputs);
          idx = phaseIdx s phase;
          templates =
            (if phase = foundation then foundationBank (in_topic inputs) idx
             else if phase = development then developmentBank (in_topic inputs) idx
             else applicationBank (in_topic inputs) (in_goal inputs) idx appWeekCount);
          selected = take nTasks templates;
          hrs = distributeHours (in_hours_per_week inputs) (length selected);
          ts = map (\<lambda>(t, h). \<lparr>title = tpl_title t, effort_hours = h,
                                 deliverable = tpl_deliverable t\<rparr>) (zip selected hrs);
          weekHours = round2 (taskSum ts)
      in \<lparr>phaseIdx = (phaseIdx s)(phase := idx + 1),
          weeks_acc = weeks_acc s @
            [\<lparr>week = Fin (real w),
              focus = focusLine phase idx (in_topic inputs) (in_goal inputs),
              hours = weekHours,
              tasks = ts,
              checkpoint = checkpoint_text phase idx (in_topic inputs) (in_goal inputs)\<rparr>]\<rparr>)"

section \<open>JSON\<close>

text \<open>
  \<open>jsvalue\<close> are the ECMAScript values a plan is made of.  The text that
  \<^verbatim>\<open>JSON.stringify\<close> produces is represented by the JSON document it spells
  (\<open>json\<close>): a JSON number is finite, and \<^verbatim>\<open>JSON.stringify\<close> writes
  \<^verbatim>\<open>null\<close> for a number that is not.  Indentation, string escapes and the digits
  chosen for a finite number are not modelled; \<^verbatim>\<open>JSON.parse\<close> reads each of them
  back as the value written.
\<close>

datatype jsvalue =
    VNull
  | VNumber number
  | VString string
  | VArray "jsvalue list"
  | VObject "(string \<times> jsvalue) list"

datatype json =
    JNull
  | JNumber real
  | JString string
  | JArray "json list"
  | JObject "(string \<times> json) list"

fun JSON_stringify :: "jsvalue \<Rightarrow> json" where
  "JSON_stringify VNull = JNull"
| "JSON_stringify (VNumber (Fin r)) = JNumber r"
| "JSON_stringify (VNumber _) = JNull"
| "JSON_stringify (VString s) = JString s"
| "JSON_stringify (VArray xs) = JArray (map JSON_stringify xs)"
| "JSON_stringify (VObject kvs) = JObject (map (\<lambda>(k, v). (k, JSON_stringify v)) kvs)"

fun JSON_parse :: "json \<Rightarrow> jsvalue" where
  "JSON_parse JNull = VNull"
| "JSON_parse (JNumber r) = VNumber (Fin r)"
| "JSON_parse (JString s) = VString s"
| "JSON_parse (JArray xs) = VArray (map JSON_parse xs)"
| "JSON_parse (JObject kvs) = VObject (map (\<lambda>(k, v). (k, JSON_parse v)) kvs)"

definition Task_value :: "Task \<Rightarrow> jsvalue" where
  "Task_value t =
     VObject [(''title'', VString (title t)),
              (''effort_hours'', VNumber (effort_hours t)),
              (''deliverable'', VString (deliverable t))]"

definition Week_value :: "Week \<Rightarrow> jsvalue" where
  "Week_value w =
     VObject [(''week'', VNumber (week w)),
              (''focus'', VString (focus w)),
              (''hours'', VNumber (hours w)),
              (''tasks'', VArray (map Task_value (tasks w))),
              (''checkpoint'', VString (checkpoint w))]"

definition LearningPlan_value :: "LearningPlan \<Rightarrow> jsvalue" where
  "LearningPlan_value p =
     VObject [(''topic'', VString (topic p)),
              (''level'', VString (level p)),
              (''goal'', VString (goal p)),
              (''weeks'', VNumber (weeks p)),
              (''hours_per_week'', VNumber (hours_per_week p)),
              (''plan'', VArray (map Week_value (plan p)))]"

section \<open>generatePlan and fixPlan\<close>

record PlanResult =
  result_plan :: LearningPlan
  rawJson :: json

text \<open>
  The loop \<^verbatim>\<open>for (let w = 1; w <= weeks; w++)\<close> runs for the integers from 1 to
  \<open>weeks\<close> rounded down, the same that \<^verbatim>\<open>Array.from\<close> has enumerated before.
\<close>

definition generatePlan :: "PlanInputs \<Rightarrow> error + PlanResult" where
  "generatePlan inputs =
     (let nTasks = tasksPerWeek (in_hours_per_week inputs)
      in case array_length (in_weeks inputs) of
           Inl e \<Rightarrow> Inl e
         | Inr n \<Rightarrow>
             let appWeekCount =
                   length (filter (\<lambda>w. phaseOf (Fin (real w)) (in_weeks inputs) = application)
                             [1..<n + 1]);
                 s0 = \<lparr>phaseIdx = (\<lambda>_. 0), weeks_acc = []\<rparr>;
                 s = foldl (week_step inputs nTasks appWeekCount) s0 [1..<n + 1];
                 result = \<lparr>topic = in_topic inputs, level = in_level inputs,
                            goal = in_goal inputs, weeks = in_weeks inputs,
                            hours_per_week = in_hours_per_week inputs,
                            plan = weeks_acc s\<rparr>
             in Inr \<lparr>result_plan = result,
                      rawJson = JSON_stringify (LearningPlan_value result)\<rparr>)"

definition fixPlan :: "PlanInputs \<Rightarrow> string list \<Rightarrow> error + PlanResult" where
  "fixPlan inputs errors = generatePlan inputs"

text \<open>The inputs the tests of the generator start from (\<^verbatim>\<open>base\<close>).\<close>

definition base :: PlanInputs where
  "base = \<lparr>in_topic = ''TypeScript'', in_level = ''beginner'', in_goal = ''Build a REST API'',
            in_weeks = Fin 4, in_hours_per_week = Fin 10, in_constraints = ''''\<rparr>"

section \<open>Notions of the specification\<close>

definition phase_rule :: "nat \<Rightarrow> nat \<Rightarrow> Phase" where
  \<comment> \<open>the classification rule in exact arithmetic, for week \<open>w\<close> of \<open>n\<close>\<close>
  "phase_rule w n =
     (if n = 1 then application
      else if n = 2 then (if w = 1 then foundation else application)
      else if real w / real n \<le> 1 / 3 then foundation
      else if real w / real n \<le> 2 / 3 then development
      else application)"

fun phase_rank :: "Phase \<Rightarrow> nat" where
  \<comment> \<open>the order foundation, development, application\<close>
  "phase_rank foundation = 0"
| "phase_rank development = 1"
| "phase_rank application = 2"

definition weeks_count_check :: "(number \<Rightarrow> string) \<Rightarrow> LearningPlan \<Rightarrow> ValidationError list" where
  \<comment> \<open>check 1: the number of weeks\<close>
  "weeks_count_check toString p =
     (if \<not> num_eq (Fin (real (length (plan p)))) (weeks p) then
        [\<lparr>type = weeks_mismatch,
          message = ''plan array has '' @ toString (Fin (real (length (plan p))))
            @ '' entries but 'weeks' is '' @ toString (weeks p)
            @ ''. They must match exactly.''\<rparr>]
      else [])"

definition hours_sum_check :: "(number \<Rightarrow> string) \<Rightarrow> Week \<Rightarrow> ValidationError list" where
  \<comment> \<open>check 2: the hours of a week against the sum of its tasks, both rounded to two decimals\<close>
  "hours_sum_check toString w =
     (if num_less (fl (1 / 100))
           (Math_abs (fsub (round2 (taskSum (tasks w))) (round2 (hours w)))) then
        [\<lparr>type = hours_mismatch,
          message = ''Week '' @ toString (week w) @ '': 'hours' is ''
            @ toString (round2 (hours w)) @ '' but task effort_hours sum to ''
            @ toString (round2 (taskSum (tasks w))) @ ''. They must be equal.''\<rparr>]
      else [])"

definition hours_budget_check ::
  "(number \<Rightarrow> string) \<Rightarrow> LearningPlan \<Rightarrow> Week \<Rightarrow> ValidationError list" where
  \<comment> \<open>check 3: the rounded hours of a week against the budget\<close>
  "hours_budget_check toString p w =
     (if num_less (hours_per_week p) (round2 (hours w)) then
        [\<lparr>type = hours_exceeded,
          message = ''Week '' @ toString (week w) @ '': '' @ toString (round2 (hours w))
            @ ''h exceeds the hours_per_week limit of '' @ toString (hours_per_week p)
            @ ''h.''\<rparr>]
      else [])"



definition two_decimals :: "number \<Rightarrow> number" where
  "two_decimals x =
     (case x of
        Fin a \<Rightarrow> (case fl (a * 100) of Fin c \<Rightarrow> fl (of_int (round c) / 100) | y \<Rightarrow> y)
      | _ \<Rightarrow> x)"

fun abs_difference :: "number \<Rightarrow> number \<Rightarrow> number" where
  "abs_difference (Fin a) (Fin b) = fl \<bar>a - b\<bar>"
| "abs_difference NaN _ = NaN"
| "abs_difference _ NaN = NaN"
| "abs_difference PInf PInf = NaN"
| "abs_difference NInf NInf = NaN"
| "abs_difference _ _ = PInf"

definition more_than_hundredth :: "number \<Rightarrow> bool" where
  "more_than_hundredth d =
     (case d of
        Fin r \<Rightarrow> (case fl (1 / 100) of Fin c \<Rightarrow> c < r | _ \<Rightarrow> False)
      | PInf \<Rightarrow> True
      | _ \<Rightarrow> False)"



section \<open>Properties of rounding\<close>

lemma expo_lower: assumes "0 < x" shows "power_int 2 (expo x) \<le> x"
proof (cases "1 \<le> x")
  case True
  define n where "n = \<lfloor>x\<rfloor>"
  have n1: "1 \<le> n" using True by (simp add: n_def)
  then have bl: "1 \<le> bitlen n" using bitlen_bounds[of n] bitlen_nonneg[of n] bitlen_eq_zero_iff[of n]
    by (smt (verit))
  have "(2::int) ^ nat (bitlen n - 1) \<le> n" using bitlen_bounds[of n] n1 by simp
  then have "(of_int ((2::int) ^ nat (bitlen n - 1)) :: real) \<le> of_int n"
    by (simp only: of_int_le_iff)
  also have "\<dots> \<le> x" by (simp add: n_def)
  finally have "(2::real) ^ nat (bitlen n - 1) \<le> x" by simp
  then show ?thesis using True bl by (simp add: expo_def n_def power_int_def)
next
  case False
  define y where "y = 1 / x"
  define m where "m = \<lceil>y\<rceil> - 1"
  have y1: "1 < y" using False assms by (simp add: y_def)
  then have m1: "1 \<le> m" unfolding m_def by (smt (verit) less_ceiling_iff of_int_1)
  then have bl: "1 \<le> bitlen m" using bitlen_bounds[of m] bitlen_nonneg[of m] bitlen_eq_zero_iff[of m]
    by (smt (verit))
  have "m < 2 ^ nat (bitlen m)" using bitlen_bounds[of m] m1 by simp
  then have "m + 1 \<le> 2 ^ nat (bitlen m)" by simp
  then have "(of_int (m + 1) :: real) \<le> of_int (2 ^ nat (bitlen m))"
    by (simp only: of_int_le_iff)
  moreover have "y \<le> of_int (m + 1)" unfolding m_def by (simp add: le_of_int_ceiling)
  ultimately have "y \<le> 2 ^ nat (bitlen m)" by simp
  then have "1 / 2 ^ nat (bitlen m) \<le> x" using assms
    by (simp add: y_def field_simps)
  then show ?thesis using False bl
    by (simp add: expo_def m_def y_def power_int_def field_simps)
qed

lemma expo_upper: assumes "0 < x" shows "x < power_int 2 (expo x + 1)"
proof (cases "1 \<le> x")
  case True
  define n where "n = \<lfloor>x\<rfloor>"
  have n1: "1 \<le> n" using True by (simp add: n_def)
  then have bl: "1 \<le> bitlen n" using bitlen_bounds[of n] bitlen_nonneg[of n] bitlen_eq_zero_iff[of n]
    by (smt (verit))
  have "n < 2 ^ nat (bitlen n)" using bitlen_bounds[of n] n1 by simp
  then have "n + 1 \<le> 2 ^ nat (bitlen n)" by simp
  then have "(of_int (n + 1) :: real) \<le> of_int (2 ^ nat (bitlen n))"
    by (simp only: of_int_le_iff)
  moreover have "x < of_int (n + 1)" unfolding n_def by linarith
  ultimately have "x < 2 ^ nat (bitlen n)" by simp
  then show ?thesis using True bl by (simp add: expo_def n_def power_int_def)
next
  case False
  define y where "y = 1 / x"
  define m where "m = \<lceil>y\<rceil> - 1"
  have y1: "1 < y" using False assms by (simp add: y_def)
  then have m1: "1 \<le> m" unfolding m_def by (smt (verit) less_ceiling_iff of_int_1)
  then have bl: "1 \<le> bitlen m" using bitlen_bounds[of m] bitlen_nonneg[of m] bitlen_eq_zero_iff[of m]
    by (smt (verit))
  have "(2::int) ^ nat (bitlen m - 1) \<le> m" using bitlen_bounds[of m] m1 by simp
  then have "(of_int ((2::int) ^ nat (bitlen m - 1)) :: real) \<le> of_int m"
    by (simp only: of_int_le_iff)
  also have "of_int m < y" unfolding m_def by linarith
  finally have lt: "2 ^ nat (bitlen m - 1) < y" by simp
  have "x < 1 / 2 ^ nat (bitlen m - 1)" using assms lt
    by (simp add: y_def field_simps)
  moreover have "power_int (2::real) (- bitlen m + 1) = 1 / 2 ^ nat (bitlen m - 1)"
  proof (cases "bitlen m = 1")
    case True then show ?thesis by simp
  next
    case False
    then have "- bitlen m + 1 < 0" using bl by simp
    moreover have "nat (- (- bitlen m + 1)) = nat (bitlen m - 1)" by simp
    ultimately show ?thesis by (simp add: power_int_def field_simps)
  qed
  ultimately show ?thesis using False
    by (simp add: expo_def m_def y_def)
qed

lemma expo_mono: assumes "0 < x" "x \<le> y" shows "expo x \<le> expo y"
proof -
  have "power_int (2::real) (expo x) \<le> x" using expo_lower assms by simp
  also have "x \<le> y" by fact
  also have "y < power_int 2 (expo y + 1)" using expo_upper assms by simp
  finally have lt: "power_int (2::real) (expo x) < power_int 2 (expo y + 1)" .
  have "\<not> expo y + 1 \<le> expo x"
  proof
    assume "expo y + 1 \<le> expo x"
    then have "power_int (2::real) (expo y + 1) \<le> power_int 2 (expo x)"
      by (intro power_int_increasing) simp_all
    with lt show False by simp
  qed
  then show ?thesis by simp
qed

lemma rhe_of_int: "rhe (of_int n) = n"
  by (simp add: rhe_def)

lemma rhe_floor_le: "\<lfloor>q\<rfloor> \<le> rhe q"
  by (simp add: rhe_def Let_def)

lemma rhe_le_floor: "rhe q \<le> \<lfloor>q\<rfloor> + 1"
  by (simp add: rhe_def Let_def)

lemma rhe_mono: assumes "q \<le> q'" shows "rhe q \<le> rhe q'"
proof (cases "\<lfloor>q\<rfloor> = \<lfloor>q'\<rfloor>")
  case True
  with assms show ?thesis by (auto simp: rhe_def Let_def)
next
  case False
  with assms have "\<lfloor>q\<rfloor> + 1 \<le> \<lfloor>q'\<rfloor>" using floor_mono[of q q'] by simp
  with rhe_le_floor[of q] rhe_floor_le[of q'] show ?thesis by linarith
qed

lemma ulp_pos: "0 < ulp x"
  by (simp add: ulp_def)

lemma fl_val_mono: assumes "0 < x" "x \<le> y" shows "fl_val x \<le> fl_val y"
proof -
  define ex where "ex = max (expo x) (- 1022)"
  define ey where "ey = max (expo y) (- 1022)"
  have le: "ex \<le> ey" using expo_mono[OF assms] by (simp add: ex_def ey_def)
  have ux: "ulp x = power_int 2 (ex - 52)" by (simp add: ulp_def ex_def)
  have uy: "ulp y = power_int 2 (ey - 52)" by (simp add: ulp_def ey_def)
  show ?thesis
  proof (cases "ex = ey")
    case True
    then have u: "ulp x = ulp y" by (simp add: ux uy)
    have "x / ulp y \<le> y / ulp y" using assms ulp_pos[of y] by (simp add: divide_right_mono)
    then have "rhe (x / ulp y) \<le> rhe (y / ulp y)" by (rule rhe_mono)
    then have "(of_int (rhe (x / ulp y)) :: real) \<le> of_int (rhe (y / ulp y))" by simp
    then show ?thesis using ulp_pos[of y] by (simp add: fl_val_def u)
  next
    case False
    with le have lt: "ex < ey" by simp
    define g :: real where "g = power_int 2 ey"
    have ey_eq: "ey = expo y" using lt by (auto simp: ex_def ey_def max_def split: if_splits)
    have "x < power_int 2 (expo x + 1)" using expo_upper assms by simp
    also have "\<dots> \<le> g" unfolding g_def using lt
      by (intro power_int_increasing) (simp_all add: ex_def)
    finally have xg: "x \<le> g" by simp
    have gy: "g \<le> y" unfolding g_def ey_eq using expo_lower[of y] assms by simp
    have gx_int: "g / ulp x = of_int (2 ^ nat (ey - ex + 52))"
    proof -
      have "g / ulp x = power_int 2 (ey - (ex - 52))"
        unfolding g_def ux by (simp add: power_int_diff)
      also have "\<dots> = 2 ^ nat (ey - ex + 52)" using lt by (simp add: power_int_def algebra_simps)
      finally show ?thesis by simp
    qed
    have gy_int: "g / ulp y = of_int (2 ^ 52)"
    proof -
      have "g / ulp y = power_int 2 (ey - (ey - 52))"
        unfolding g_def uy by (simp add: power_int_diff)
      then show ?thesis by simp
    qed
    have "rhe (x / ulp x) \<le> rhe (g / ulp x)"
      using xg ulp_pos[of x] by (intro rhe_mono) (simp add: divide_right_mono)
    then have "rhe (x / ulp x) \<le> 2 ^ nat (ey - ex + 52)"
      by (simp only: gx_int rhe_of_int)
    then have "(of_int (rhe (x / ulp x)) :: real) \<le> of_int (2 ^ nat (ey - ex + 52))"
      by (simp only: of_int_le_iff)
    then have "of_int (rhe (x / ulp x)) * ulp x \<le> (g / ulp x) * ulp x"
      using ulp_pos[of x] by (simp only: gx_int mult_le_cancel_right) simp
    then have a: "fl_val x \<le> g" using ulp_pos[of x] by (simp add: fl_val_def)
    have "rhe (g / ulp y) \<le> rhe (y / ulp y)"
      using gy ulp_pos[of y] by (intro rhe_mono) (simp add: divide_right_mono)
    then have "2 ^ 52 \<le> rhe (y / ulp y)"
      by (simp only: gy_int rhe_of_int)
    then have "(of_int (2 ^ 52) :: real) \<le> of_int (rhe (y / ulp y))"
      by (simp only: of_int_le_iff)
    then have "(g / ulp y) * ulp y \<le> of_int (rhe (y / ulp y)) * ulp y"
      using ulp_pos[of y] by (simp only: gy_int mult_le_cancel_right) simp
    then have b: "g \<le> fl_val y" using ulp_pos[of y] by (simp add: fl_val_def)
    from a b show ?thesis by simp
  qed
qed

lemma fl_pos_mono: assumes "0 < x" "x \<le> y" shows "num_le (fl_pos x) (fl_pos y)"
  using fl_val_mono[OF assms] by (simp add: fl_pos_def)

lemma fl_mono: assumes "0 < x" "x \<le> y" shows "num_le (fl x) (fl y)"
  using fl_pos_mono[OF assms] assms by (simp add: fl_def)

lemma num_le_trans: "num_le a b \<Longrightarrow> num_le b c \<Longrightarrow> num_le a c"
  by (cases a; cases b; cases c) simp_all

lemma expo_ge: assumes "0 < x" "power_int 2 k \<le> x" shows "k \<le> expo x"
proof -
  have "power_int (2::real) k < power_int 2 (expo x + 1)"
    using expo_upper[OF assms(1)] assms(2) by simp
  have "\<not> expo x + 1 \<le> k"
  proof
    assume "expo x + 1 \<le> k"
    then have "power_int (2::real) (expo x + 1) \<le> power_int 2 k"
      by (intro power_int_increasing) simp_all
    with \<open>power_int (2::real) k < power_int 2 (expo x + 1)\<close> show False by simp
  qed
  then show ?thesis by simp
qed

lemma number_grid:
  assumes "is_number x" "0 < x"
  shows "\<exists>N::int. x = of_int N * power_int 2 (max (expo x) (- 1022) - 52)"
proof -
  have "fl_pos x = Fin x" using assms by (simp add: is_number_def fl_def)
  then have "fl_val x = x" by (simp add: fl_pos_def split: if_splits)
  then have "x = of_int (rhe (x / ulp x)) * power_int 2 (max (expo x) (- 1022) - 52)"
    by (simp add: fl_val_def ulp_def)
  then show ?thesis ..
qed

lemma grid_gap:
  fixes w t a c :: nat
  assumes nw: "is_number (real w)" and nt: "is_number (real t)"
    and t0: "0 < t" and ac: "a * 2 ^ c = 4" and lt: "a * t < 3 * w"
  shows "real t \<le> 2 ^ (53 + c) * (3 * real w - real a * real t)"
proof -
  define e where "e = expo (real t)"
  have tpos: "0 < real t" using t0 by simp
  have w0: "0 < real w" using lt by (cases w) simp_all
  have tup: "real t < power_int 2 (e + 1)" unfolding e_def by (rule expo_upper[OF tpos])
  have tlo: "power_int 2 e \<le> real t" unfolding e_def by (rule expo_lower[OF tpos])
  have gap1: "1 \<le> 3 * real w - real a * real t"
  proof -
    have "a * t + 1 \<le> 3 * w" using lt by simp
    then have "real (a * t + 1) \<le> real (3 * w)" by (simp only: of_nat_le_iff)
    then show ?thesis by simp
  qed
  show ?thesis
  proof (cases "e \<le> 52 + int c")
    case True
    then have "power_int (2::real) (e + 1) \<le> power_int 2 (53 + int c)"
      by (intro power_int_increasing) simp_all
    also have "power_int (2::real) (53 + int c) = 2 ^ (53 + c)"
      by (simp add: power_int_def nat_add_distrib)
    finally have up: "power_int (2::real) (e + 1) \<le> 2 ^ (53 + c)" .
    have "real t \<le> 2 ^ (53 + c) * 1" using tup up by linarith
    also have "\<dots> \<le> 2 ^ (53 + c) * (3 * real w - real a * real t)"
      using gap1 by (intro mult_left_mono) simp_all
    finally show ?thesis .
  next
    case False
    then have e53: "53 + int c \<le> e" by simp
    define P :: real where "P = power_int 2 (e - 52 - int c)"
    have Ppos: "0 < P" by (simp add: P_def)
    have ac_real: "real a * 2 ^ c = 4"
      using ac by (metis of_nat_mult of_nat_numeral of_nat_power)
    define Q :: real where "Q = power_int 2 52 * P"
    have Qpos: "0 < Q" using Ppos by (simp add: Q_def)
    have pe: "power_int (2::real) e = 2 ^ c * Q"
    proof -
      have "power_int (2::real) e = power_int 2 (int c + (52 + (e - 52 - int c)))" by simp
      also have "\<dots> = power_int 2 (int c) * power_int 2 (52 + (e - 52 - int c))"
        by (rule power_int_add) simp
      also have "power_int (2::real) (52 + (e - 52 - int c)) = Q"
        unfolding Q_def P_def by (rule power_int_add) simp
      finally show ?thesis by simp
    qed
    have wlow: "power_int 2 (e - int c) \<le> real w"
    proof -
      have pq: "power_int (2::real) (e - int c) = Q"
      proof -
        have "power_int (2::real) (e - int c) = power_int 2 (52 + (e - 52 - int c))" by simp
        also have "\<dots> = Q"
          unfolding Q_def P_def by (rule power_int_add) simp
        finally show ?thesis .
      qed
      have "real a * power_int 2 e \<le> real a * real t"
        using tlo by (intro mult_left_mono) simp_all
      also have "\<dots> < 3 * real w"
        using lt by (metis of_nat_less_iff of_nat_mult of_nat_numeral)
      finally have "real a * (2 ^ c * Q) < 3 * real w" by (simp only: pe)
      moreover have "real a * (2 ^ c * Q) = (real a * 2 ^ c) * Q" by (simp only: mult.assoc)
      ultimately have "4 * Q < 3 * real w" by (simp only: ac_real)
      then have "Q \<le> real w" using Qpos by linarith
      then show ?thesis by (simp only: pq)
    qed
    have ew: "e - int c \<le> expo (real w)" by (rule expo_ge[OF w0 wlow])
    obtain Nt :: int where Nt: "real t = of_int Nt * power_int 2 (max e (- 1022) - 52)"
      using number_grid[OF nt tpos] unfolding e_def by blast
    obtain Nw :: int where Nw: "real w = of_int Nw * power_int 2 (max (expo (real w)) (- 1022) - 52)"
      using number_grid[OF nw w0] by blast
    have t_eq: "real t = of_int Nt * (2 ^ c * P)"
    proof -
      have mx: "max e (- 1022) - 52 = int c + (e - 52 - int c)" using e53 by simp
      have "power_int (2::real) (int c + (e - 52 - int c))
              = power_int 2 (int c) * power_int 2 (e - 52 - int c)"
        by (rule power_int_add) simp
      then have pw: "power_int (2::real) (max e (- 1022) - 52) = 2 ^ c * P"
        unfolding P_def by (simp only: mx power_int_of_nat)
      show ?thesis using Nt by (simp only: pw)
    qed
    define k where "k = nat (expo (real w) - e + int c)"
    have w_eq: "real w = of_int Nw * (2 ^ k * P)"
    proof -
      have mx: "max (expo (real w)) (- 1022) - 52 = int k + (e - 52 - int c)"
        using e53 ew by (simp add: k_def)
      have "power_int (2::real) (int k + (e - 52 - int c))
              = power_int 2 (int k) * power_int 2 (e - 52 - int c)"
        by (rule power_int_add) simp
      then have pw: "power_int (2::real) (max (expo (real w)) (- 1022) - 52) = 2 ^ k * P"
        unfolding P_def by (simp only: mx power_int_of_nat)
      show ?thesis using Nw by (simp only: pw)
    qed
    define M :: int where "M = 3 * Nw * 2 ^ k - 4 * Nt"
    have diff: "3 * real w - real a * real t = of_int M * P"
    proof -
      have "real a * real t = of_int Nt * (real a * 2 ^ c) * P" by (simp add: t_eq)
      also have "\<dots> = of_int (4 * Nt) * P" by (simp add: ac_real)
      finally show ?thesis by (simp add: w_eq M_def algebra_simps)
    qed
    have "0 < of_int M * P" using gap1 diff by simp
    then have "0 < (of_int M :: real)" using Ppos by (simp add: zero_less_mult_iff)
    then have "1 \<le> M" by simp
    then have "(1::real) \<le> of_int M" by simp
    then have "P \<le> of_int M * P" using Ppos by simp
    then have "P \<le> 3 * real w - real a * real t" by (simp add: diff)
    then have "2 ^ (53 + c) * P \<le> 2 ^ (53 + c) * (3 * real w - real a * real t)"
      by (intro mult_left_mono) simp_all
    moreover have "2 ^ (53 + c) * P = power_int (2::real) (e + 1)"
    proof -
      have ex: "e + 1 = int (53 + c) + (e - 52 - int c)" by simp
      have "power_int (2::real) (int (53 + c) + (e - 52 - int c))
              = power_int 2 (int (53 + c)) * power_int 2 (e - 52 - int c)"
        by (rule power_int_add) simp
      then show ?thesis unfolding P_def by (simp only: ex power_int_of_nat)
    qed
    ultimately show ?thesis using tup by simp
  qed
qed

subsection \<open>Evaluation of rounding on numerals\<close>

lemma bitlen_numeral_simps:
  "bitlen 1 = 1"
  "bitlen (numeral (Num.Bit0 n)) = bitlen (numeral n) + 1"
  "bitlen (numeral (Num.Bit1 n)) = bitlen (numeral n) + 1"
proof -
  show "bitlen 1 = 1" by (subst compute_bitlen) simp
  have "numeral (Num.Bit0 n) div (2::int) = numeral n" by simp
  then show "bitlen (numeral (Num.Bit0 n)) = bitlen (numeral n) + 1"
    by (subst compute_bitlen) simp
  have "numeral (Num.Bit1 n) div (2::int) = numeral n" by simp
  then show "bitlen (numeral (Num.Bit1 n)) = bitlen (numeral n) + 1"
    by (subst compute_bitlen) simp
qed

lemmas fl_eval = fl_def fl_pos_def fl_val_def ulp_def expo_def rhe_def Let_def bitlen_numeral_simps

lemma fl_1: "fl 1 = Fin 1"
  by (simp add: fl_eval)

lemma fl_third: "fl (1 / 3) = Fin (6004799503160661 / 18014398509481984)"
  by (simp add: fl_eval)

lemma fl_two_thirds: "fl (2 / 3) = Fin (6004799503160661 / 9007199254740992)"
  by (simp add: fl_eval)

lemma fl_above_third:
  "fl (12009599006321323 / 36028797018963968) = Fin (3002399751580331 / 9007199254740992)"
  by (simp add: fl_eval)

lemma fl_above_two_thirds:
  "fl (12009599006321323 / 18014398509481984) = Fin (3002399751580331 / 4503599627370496)"
  by (simp add: fl_eval)

lemma fl_hundredth: "fl (1 / 100) = Fin (5764607523034235 / 576460752303423488)"
  by (simp add: fl_eval)

section \<open>Phase classification\<close>

lemma num_le_not_below: "num_le (Fin a) x \<Longrightarrow> b < a \<Longrightarrow> \<not> num_le x (Fin b)"
  by (cases x) simp_all

lemma phaseOf_ratio:
  assumes "3 \<le> n"
  shows "phaseOf (Fin (real w)) (Fin (real n)) =
           (if num_le (fl (real w / real n)) (fl (1 / 3)) then foundation
            else if num_le (fl (real w / real n)) (fl (2 / 3)) then development
            else application)"
  using assms by (simp add: phaseOf_def num_eq_def Let_def)

lemma ratio_le_third:
  assumes "1 \<le> w" "0 < n" "real w / real n \<le> 1 / 3"
  shows "num_le (fl (real w / real n)) (fl (1 / 3))"
proof -
  have "0 < real w / real n" using assms by simp
  then show ?thesis using assms(3) by (rule fl_mono)
qed

lemma ratio_le_two_thirds:
  assumes "1 \<le> w" "0 < n" "real w / real n \<le> 2 / 3"
  shows "num_le (fl (real w / real n)) (fl (2 / 3))"
proof -
  have "0 < real w / real n" using assms by simp
  then show ?thesis using assms(3) by (rule fl_mono)
qed

lemma ratio_gt_third:
  assumes nw: "is_number (real w)" and nn: "is_number (real n)" and n0: "0 < n"
    and gt: "\<not> real w / real n \<le> 1 / 3"
  shows "\<not> num_le (fl (real w / real n)) (fl (1 / 3))"
proof -
  have lt: "1 * n < 3 * w" 
  proof -
    have "real n < 3 * real w" using gt n0 by (simp add: field_simps)
    then have "real n < real (3 * w)" by simp
    then show ?thesis by (simp only: of_nat_less_iff)
  qed
  have ac: "(1::nat) * 2 ^ 2 = 4" by simp
  have "real n \<le> 2 ^ (53 + 2) * (3 * real w - real 1 * real n)"
    by (rule grid_gap[OF nw nn n0 ac lt])
  then have "real n \<le> 36028797018963968 * (3 * real w - real n)" by simp
  then have "12009599006321323 / 36028797018963968 \<le> real w / real n"
    using n0 by (simp add: field_simps)
  moreover have "(0::real) < 12009599006321323 / 36028797018963968" by simp
  ultimately have "num_le (fl (12009599006321323 / 36028797018963968)) (fl (real w / real n))"
    by (intro fl_mono)
  then have "num_le (Fin (3002399751580331 / 9007199254740992)) (fl (real w / real n))"
    by (simp only: fl_above_third)
  then have "\<not> num_le (fl (real w / real n)) (Fin (6004799503160661 / 18014398509481984))"
    by (rule num_le_not_below) simp
  then show ?thesis by (simp add: fl_third)
qed

lemma ratio_gt_two_thirds:
  assumes nw: "is_number (real w)" and nn: "is_number (real n)" and n0: "0 < n"
    and gt: "\<not> real w / real n \<le> 2 / 3"
  shows "\<not> num_le (fl (real w / real n)) (fl (2 / 3))"
proof -
  have lt: "2 * n < 3 * w" 
  proof -
    have "2 * real n < 3 * real w" using gt n0 by (simp add: field_simps)
    then have "real (2 * n) < real (3 * w)" by simp
    then show ?thesis by (simp only: of_nat_less_iff)
  qed
  have ac: "(2::nat) * 2 ^ 1 = 4" by simp
  have "real n \<le> 2 ^ (53 + 1) * (3 * real w - real 2 * real n)"
    by (rule grid_gap[OF nw nn n0 ac lt])
  then have "real n \<le> 18014398509481984 * (3 * real w - 2 * real n)" by simp
  then have "12009599006321323 / 18014398509481984 \<le> real w / real n"
    using n0 by (simp add: field_simps)
  moreover have "(0::real) < 12009599006321323 / 18014398509481984" by simp
  ultimately have "num_le (fl (12009599006321323 / 18014398509481984)) (fl (real w / real n))"
    by (intro fl_mono)
  then have "num_le (Fin (3002399751580331 / 4503599627370496)) (fl (real w / real n))"
    by (simp only: fl_above_two_thirds)
  then have "\<not> num_le (fl (real w / real n)) (Fin (6004799503160661 / 9007199254740992))"
    by (rule num_le_not_below) simp
  then show ?thesis by (simp add: fl_two_thirds)
qed

text \<open>
  Claim C5.  For week \<open>w\<close> of \<open>n\<close>, with \<open>1 \<le> w \<le> n\<close> and both integers number
  values, \<open>phaseOf\<close> classifies the week as the rule in exact arithmetic does: the
  only week of one is application; of two weeks the first is foundation and the second
  application; from three weeks on, \<open>w / n \<le> 1/3\<close> gives foundation, \<open>w / n \<le> 2/3\<close>
  development, and anything else application.  The rounded quotient and the rounded
  constants \<open>1 / 3\<close> and \<open>2 / 3\<close> of the code decide exactly as the real ones.
\<close>
theorem phaseOf_follows_rule:
  assumes "1 \<le> w" "w \<le> n" "is_number (real w)" "is_number (real n)"
  shows "phaseOf (Fin (real w)) (Fin (real n)) = phase_rule w n"
proof -
  consider "n = 1" | "n = 2" | "3 \<le> n" using assms(1,2) by linarith
  then show ?thesis
  proof cases
    case 1
    then show ?thesis by (simp add: phaseOf_def phase_rule_def num_eq_def)
  next
    case 2
    then show ?thesis by (simp add: phaseOf_def phase_rule_def num_eq_def)
  next
    case 3
    then have n0: "0 < n" by simp
    have n12: "n \<noteq> 1" "n \<noteq> 2" using 3 by simp_all
    show ?thesis
    proof (cases "real w / real n \<le> 1 / 3")
      case True
      then show ?thesis
        using ratio_le_third[OF assms(1) n0 True] n12
        by (simp only: phaseOf_ratio[OF 3] phase_rule_def if_True if_False)
    next
      case False
      note not13 = ratio_gt_third[OF assms(3,4) n0 False]
      show ?thesis
      proof (cases "real w / real n \<le> 2 / 3")
        case True
        then show ?thesis
          using ratio_le_two_thirds[OF assms(1) n0 True] not13 False n12
          by (simp only: phaseOf_ratio[OF 3] phase_rule_def if_True if_False)
      next
        case F2: False
        then show ?thesis
          using ratio_gt_two_thirds[OF assms(3,4) n0 F2] not13 False n12
          by (simp only: phaseOf_ratio[OF 3] phase_rule_def if_True if_False)
      qed
    qed
  qed
qed

text \<open>The rule at weeks 2, 4 and 5 of 7: one week of each phase.\<close>
theorem phaseOf_follows_rule_witness:
  "phaseOf (Fin (real 2)) (Fin (real 7)) = foundation
   \<and> phaseOf (Fin (real 4)) (Fin (real 7)) = development
   \<and> phaseOf (Fin (real 5)) (Fin (real 7)) = application"
proof -
  have n: "is_number (real 2)" "is_number (real 4)" "is_number (real 5)" "is_number (real 7)"
    by (simp_all add: is_number_def fl_eval)
  have "phaseOf (Fin (real 2)) (Fin (real 7)) = phase_rule 2 7"
    by (rule phaseOf_follows_rule[OF _ _ n(1) n(4)]) simp_all
  moreover have "phaseOf (Fin (real 4)) (Fin (real 7)) = phase_rule 4 7"
    by (rule phaseOf_follows_rule[OF _ _ n(2) n(4)]) simp_all
  moreover have "phaseOf (Fin (real 5)) (Fin (real 7)) = phase_rule 5 7"
    by (rule phaseOf_follows_rule[OF _ _ n(3) n(4)]) simp_all
  ultimately show ?thesis by (simp add: phase_rule_def)
qed

text \<open>
  Claim C10.  Phases never go backwards: for \<open>1 \<le> w1 \<le> w2 \<le> n\<close> the phase of week
  \<open>w1\<close> is no later than the phase of week \<open>w2\<close> in the order foundation,
  development, application; and the last week of every plan is an application week.
\<close>
theorem phaseOf_monotone:
  assumes "1 \<le> w1" "w1 \<le> w2" "w2 \<le> n"
  shows "phase_rank (phaseOf (Fin (real w1)) (Fin (real n)))
           \<le> phase_rank (phaseOf (Fin (real w2)) (Fin (real n)))
         \<and> phaseOf (Fin (real n)) (Fin (real n)) = application"
proof -
  consider "n = 1" | "n = 2" | "3 \<le> n" using assms by linarith
  then show ?thesis
  proof cases
    case 1
    then have "w1 = 1" "w2 = 1" using assms by simp_all
    with 1 show ?thesis by (simp add: phaseOf_def num_eq_def)
  next
    case 2
    then consider "w1 = 1" | "w1 = 2 \<and> w2 = 2" using assms by linarith
    then show ?thesis
      using 2 by cases (auto simp: phaseOf_def num_eq_def)
  next
    case 3
    then have n0: "0 < real n" by simp
    have pos: "0 < real w1 / real n" using assms(1) n0 by simp
    have "real w1 / real n \<le> real w2 / real n"
      using assms(2) n0 by (simp add: divide_right_mono)
    then have le: "num_le (fl (real w1 / real n)) (fl (real w2 / real n))"
      using pos by (intro fl_mono)
    have mono: "phase_rank (phaseOf (Fin (real w1)) (Fin (real n)))
                  \<le> phase_rank (phaseOf (Fin (real w2)) (Fin (real n)))"
      using num_le_trans[OF le] by (auto simp: phaseOf_ratio[OF 3])
    have "real n / real n = 1" using n0 by simp
    then have last: "phaseOf (Fin (real n)) (Fin (real n)) = application"
      by (simp add: phaseOf_ratio[OF 3] fl_1 fl_third fl_two_thirds)
    from mono last show ?thesis by simp
  qed
qed

text \<open>Weeks 2 and 5 of 7, and the last week.\<close>
theorem phaseOf_monotone_witness:
  "phase_rank (phaseOf (Fin (real 2)) (Fin (real 7)))
     \<le> phase_rank (phaseOf (Fin (real 5)) (Fin (real 7)))
   \<and> phaseOf (Fin (real 7)) (Fin (real 7)) = application"
  using phaseOf_monotone[of 2 5 7] by simp

section \<open>The generator and the validator\<close>

lemma weeks_acc_foldl:
  "map week (weeks_acc (foldl (week_step inputs nTasks appWeekCount) s ws))
     = map week (weeks_acc s) @ map (\<lambda>w. Fin (real w)) ws"
  by (induction ws arbitrary: s) (simp_all add: week_step_def Let_def)

lemma array_length_nat:
  assumes "1 \<le> W" "W < 2 ^ 32"
  shows "array_length (Fin (real W)) = Inr W"
proof -
  have "\<not> real W < 1" using assms(1) by simp
  moreover have "\<not> (2::int) ^ 32 \<le> int W" using assms(2) by simp
  ultimately show ?thesis by (simp add: array_length_def)
qed

text \<open>
  Claim C2, for a number of weeks that is an array length.  When \<open>weeks\<close> is the
  integer \<open>W\<close> with \<open>1 \<le> W < 2 ^ 32\<close>, \<open>generatePlan\<close> returns a plan of exactly
  \<open>W\<close> weeks whose \<open>week\<close> fields are \<open>1, 2, \<dots>, W\<close> in this order, whatever the
  other inputs are.
\<close>
theorem generatePlan_week_numbers:
  assumes "in_weeks inputs = Fin (real W)" "1 \<le> W" "W < 2 ^ 32"
  shows "\<exists>r. generatePlan inputs = Inr r
           \<and> length (plan (result_plan r)) = W
           \<and> map week (plan (result_plan r)) = map (\<lambda>k. Fin (real k)) [1..<W + 1]"
proof -
  have al: "array_length (in_weeks inputs) = Inr W"
    using array_length_nat[OF assms(2,3)] assms(1) by simp
  obtain r where r: "generatePlan inputs = Inr r"
    and p: "plan (result_plan r) = weeks_acc (foldl
        (week_step inputs (tasksPerWeek (in_hours_per_week inputs))
           (length (filter (\<lambda>w. phaseOf (Fin (real w)) (in_weeks inputs) = application) [1..<W + 1])))
        \<lparr>phaseIdx = (\<lambda>_. 0), weeks_acc = []\<rparr> [1..<W + 1])"
    by (simp add: generatePlan_def al Let_def)
  have m: "map week (plan (result_plan r)) = map (\<lambda>k. Fin (real k)) [1..<W + 1]"
    by (simp only: p weeks_acc_foldl) simp
  have "length (map week (plan (result_plan r))) = length (map (\<lambda>k. Fin (real k)) [1..<W + 1])"
    by (simp only: m)
  then have "length (plan (result_plan r)) = W" by simp
  with r m show ?thesis by blast
qed

text \<open>The four weeks of the plan for the inputs \<open>base\<close>.\<close>
theorem generatePlan_week_numbers_witness:
  "\<exists>r. generatePlan base = Inr r
         \<and> length (plan (result_plan r)) = 4
         \<and> map week (plan (result_plan r)) = [Fin 1, Fin 2, Fin 3, Fin 4]"
proof -
  have u: "[1..<4 + 1] = [1, 2, 3, 4::nat]" by (simp add: upt_rec)
  have h: "in_weeks base = Fin (real 4)" by (simp add: base_def)
  have "\<exists>r. generatePlan base = Inr r
         \<and> length (plan (result_plan r)) = 4
         \<and> map week (plan (result_plan r)) = map (\<lambda>k. Fin (real k)) [1..<4 + 1]"
    by (rule generatePlan_week_numbers[OF h]) simp_all
  then show ?thesis unfolding u by simp
qed

text \<open>
  From \<open>2 ^ 32\<close> weeks on no plan is returned: \<^verbatim>\<open>Array.from\<close> raises
  \<^verbatim>\<open>RangeError\<close> before the loop starts.
\<close>
theorem generatePlan_range_error:
  "generatePlan (base\<lparr>in_weeks := Fin 4294967296\<rparr>) = Inl RangeError"
  by (simp add: generatePlan_def array_length_def base_def)

text \<open>So it is for every number of weeks from \<open>2 ^ 32\<close> on.\<close>

lemma generatePlan_raises:
  assumes "in_weeks inputs = Fin (real W)" "2 ^ 32 \<le> W"
  shows "generatePlan inputs = Inl RangeError"
proof -
  have "(2::int) ^ 32 \<le> int W" using assms(2) by (metis of_nat_le_iff of_nat_numeral of_nat_power)
  moreover have "\<not> real W < 1" using assms(2) by (cases W) simp_all
  ultimately have "array_length (in_weeks inputs) = Inl RangeError"
    by (simp add: array_length_def assms(1))
  then show ?thesis by (simp add: generatePlan_def Let_def)
qed

text \<open>
  Claim C8.  \<open>fixPlan\<close> returns what \<open>generatePlan\<close> returns on the same inputs,
  whatever the list of error messages is.
\<close>
theorem fixPlan_is_generatePlan: "fixPlan inputs errors = generatePlan inputs"
  by (simp add: fixPlan_def)

lemma validate_week_append:
  "validate_week toString p errs w = errs @ validate_week toString p [] w"
  by (simp add: validate_week_def Let_def)

lemma foldl_validate_week:
  "foldl (validate_week toString p) errs ws
     = errs @ concat (map (validate_week toString p []) ws)"
proof (induction ws arbitrary: errs)
  case Nil
  show ?case by simp
next
  case (Cons w ws)
  have "foldl (validate_week toString p) errs (w # ws)
          = foldl (validate_week toString p) (validate_week toString p errs w) ws" by simp
  also have "\<dots> = validate_week toString p errs w @ concat (map (validate_week toString p []) ws)"
    by (rule Cons.IH)
  also have "\<dots> = errs @ validate_week toString p [] w @ concat (map (validate_week toString p []) ws)"
    by (subst validate_week_append) simp
  finally show ?case by simp
qed

text \<open>
  Claim C7.  \<open>validatePlan\<close> returns every violation, in one list: the error of the
  weeks-count check first when it fires, then for each week in the order of the plan
  the \<open>hours_mismatch\<close> error of the week, when it fires, followed by its
  \<open>hours_exceeded\<close> error, when it fires.  No check is skipped because an earlier one
  fired.
\<close>
theorem validatePlan_accumulates_in_order:
  "validatePlan toString p =
     weeks_count_check toString p
     @ concat (map (\<lambda>w. hours_sum_check toString w @ hours_budget_check toString p w) (plan p))"
proof -
  have body: "validate_week toString p []
                = (\<lambda>w. hours_sum_check toString w @ hours_budget_check toString p w)"
    by (rule ext) (simp add: validate_week_def hours_sum_check_def hours_budget_check_def Let_def)
  show ?thesis
    by (simp add: validatePlan_def weeks_count_check_def foldl_validate_week body Let_def)
qed

section \<open>Two decimals and the absolute difference\<close>













subsection \<open>The notions of the hours check in real arithmetic\<close>

text \<open>
  A number rounded to two decimals is the number nearest to \<open>n / 100\<close> for an integer
  \<open>n\<close> that is away from 100 times the number by a half and half a spacing of numbers
  at most.
\<close>

lemma fl_error: "\<bar>fl_val x - x\<bar> \<le> ulp x / 2"
proof -
  define q where "q = x / ulp x"
  have r: "\<bar>of_int (rhe q) - q\<bar> \<le> 1 / 2"
    unfolding rhe_def Let_def by (auto simp: abs_le_iff)
  have x: "x = q * ulp x" using ulp_pos[of x] by (simp add: q_def)
  have "fl_val x - x = (of_int (rhe q) - q) * ulp x"
    using ulp_pos[of x] by (simp add: fl_val_def q_def algebra_simps)
  then have "\<bar>fl_val x - x\<bar> = \<bar>of_int (rhe q) - q\<bar> * ulp x"
    using ulp_pos[of x] by (simp add: abs_mult)
  also have "\<dots> \<le> (1 / 2) * ulp x"
    using r ulp_pos[of x] by (intro mult_right_mono) simp_all
  finally show ?thesis by simp
qed

lemma fl_finite_error:
  assumes "fl x = Fin c"
  shows "\<bar>c - x\<bar> \<le> ulp \<bar>x\<bar> / 2"
proof -
  consider "x = 0" | "0 < x" | "x < 0" by linarith
  then show ?thesis
  proof cases
    case 1
    then show ?thesis using assms ulp_pos[of 0] by (simp add: fl_def)
  next
    case 2
    then have "c = fl_val x" using assms by (simp add: fl_def fl_pos_def split: if_splits)
    then show ?thesis using fl_error[of x] 2 by simp
  next
    case 3
    then have "c = - fl_val (- x)" using assms by (simp add: fl_def fl_pos_def split: if_splits)
    then have "c - x = - (fl_val (- x) - (- x))" by simp
    then have "\<bar>c - x\<bar> = \<bar>fl_val (- x) - (- x)\<bar>" by (simp only: abs_minus)
    moreover have "\<bar>x\<bar> = - x" using 3 by simp
    ultimately show ?thesis using fl_error[of "- x"] by simp
  qed
qed

lemma two_decimals_nearest:
  assumes "two_decimals (Fin a) = Fin r"
  shows "\<exists>n::int. fl (of_int n / 100) = Fin r
           \<and> \<bar>of_int n - a * 100\<bar> \<le> 1 / 2 + ulp \<bar>a * 100\<bar> / 2"
proof (cases "fl (a * 100)")
  case (Fin c)
  have r: "fl (of_int (round c) / 100) = Fin r" using assms by (simp add: two_decimals_def Fin)
  have "\<bar>of_int (round c) - c\<bar> \<le> 1 / 2" by (rule of_int_round_abs_le)
  moreover have "\<bar>c - a * 100\<bar> \<le> ulp \<bar>a * 100\<bar> / 2" by (rule fl_finite_error[OF Fin])
  ultimately have "\<bar>of_int (round c) - a * 100\<bar> \<le> 1 / 2 + ulp \<bar>a * 100\<bar> / 2" by linarith
  with r show ?thesis by blast
next
  case PInf with assms show ?thesis by (simp add: two_decimals_def)
next
  case NInf with assms show ?thesis by (simp add: two_decimals_def)
next
  case NaN with assms show ?thesis by (simp add: two_decimals_def)
qed

lemma two_decimals_examples:
  "two_decimals (fl (1234 / 1000)) = fl (123 / 100)"
  "two_decimals (fl (1236 / 1000)) = fl (124 / 100)"
  "two_decimals (Fin (1 / 8)) = fl (13 / 100)"
  "two_decimals (Fin (- 1 / 8)) = fl (- 12 / 100)"
  "two_decimals (Fin 10) = Fin 10"
  by (simp_all add: two_decimals_def round_def fl_eval)

text \<open>
  The number \<^verbatim>\<open>0.01\<close> is \<open>5764607523034235 / 2 ^ 59\<close>, a little above \<open>1 / 100\<close>.
  The absolute difference of two finite numbers is more than \<^verbatim>\<open>0.01\<close> exactly when
  their difference as reals is at least the middle of \<^verbatim>\<open>0.01\<close> and the next number,
  \<open>11529215046068471 / 2 ^ 60\<close>, which is less than \<open>1.1 / 10 ^ 18\<close> above \<open>1 / 100\<close>.
\<close>

lemma rhe_between:
  assumes "of_int m \<le> q" "q < of_int m + 1 / 2"
  shows "rhe q = m"
proof -
  have f: "\<lfloor>q\<rfloor> = m" using assms by (intro floor_unique) simp_all
  show ?thesis using assms by (simp add: rhe_def f Let_def)
qed

lemma expo_less: assumes "0 < x" "x < power_int 2 k" shows "expo x < k"
proof (rule ccontr)
  assume "\<not> expo x < k"
  then have "k \<le> expo x" by simp
  then have "power_int (2::real) k \<le> power_int 2 (expo x)"
    by (intro power_int_increasing) simp_all
  also have "\<dots> \<le> x" using expo_lower[OF assms(1)] .
  finally show False using assms(2) by simp
qed

lemma fl_hundredth_fix:
  "fl (5764607523034235 / 576460752303423488) = Fin (5764607523034235 / 576460752303423488)"
  by (simp add: fl_eval)

lemma fl_threshold:
  "fl (11529215046068471 / 1152921504606846976) = Fin (1441151880758559 / 144115188075855872)"
  by (simp add: fl_eval)

lemma fl_below_threshold:
  assumes "5764607523034235 / 576460752303423488 < x"
    and "x < 11529215046068471 / 1152921504606846976"
  shows "fl x = Fin (5764607523034235 / 576460752303423488)"
proof -
  have pos: "0 < x" using assms(1) by simp
  have "power_int 2 (- 7) \<le> x" using assms(1) by (simp add: power_int_minus)
  then have l: "- 7 \<le> expo x" using expo_ge[OF pos] by simp
  have "x < power_int 2 (- 6)" using assms(2) by (simp add: power_int_minus)
  then have "expo x < - 6" by (rule expo_less[OF pos])
  with l have e: "expo x = - 7" by simp
  have u: "ulp x = 1 / 576460752303423488" by (simp add: ulp_def e power_int_minus)
  have "rhe (x / ulp x) = 5764607523034235"
  proof (rule rhe_between)
    show "of_int 5764607523034235 \<le> x / ulp x" using assms(1) by (simp add: u)
    show "x / ulp x < of_int 5764607523034235 + 1 / 2" using assms(2) by (simp add: u)
  qed
  then have "fl_val x = 5764607523034235 / 576460752303423488" by (simp add: fl_val_def u)
  then show ?thesis using pos by (simp add: fl_def fl_pos_def)
qed

lemma more_than_hundredth_fl:
  assumes "0 \<le> x"
  shows "more_than_hundredth (fl x) \<longleftrightarrow> 11529215046068471 / 1152921504606846976 \<le> x"
proof (cases "11529215046068471 / 1152921504606846976 \<le> x")
  case True
  have "num_le (fl (11529215046068471 / 1152921504606846976)) (fl x)"
    by (rule fl_mono) (use True in simp_all)
  then have le: "num_le (Fin (1441151880758559 / 144115188075855872)) (fl x)"
    by (simp only: fl_threshold)
  have "more_than_hundredth (fl x)"
  proof (cases "fl x")
    case (Fin r)
    with le have "1441151880758559 / 144115188075855872 \<le> r" by simp
    then show ?thesis by (simp add: more_than_hundredth_def Fin fl_hundredth)
  next
    case PInf then show ?thesis by (simp add: more_than_hundredth_def)
  next
    case NInf with le show ?thesis by simp
  next
    case NaN with le show ?thesis by simp
  qed
  with True show ?thesis by simp
next
  case False
  have "\<not> more_than_hundredth (fl x)"
  proof (cases "x \<le> 5764607523034235 / 576460752303423488")
    case True
    show ?thesis
    proof (cases "x = 0")
      case True
      have "fl 0 = Fin 0" by (simp add: fl_def)
      then show ?thesis using True by (simp add: more_than_hundredth_def fl_hundredth)
    next
      case False
      then have pos: "0 < x" using assms by simp
      have "num_le (fl x) (fl (5764607523034235 / 576460752303423488))"
        using pos True by (rule fl_mono)
      then have le: "num_le (fl x) (Fin (5764607523034235 / 576460752303423488))"
        by (simp only: fl_hundredth_fix)
      show ?thesis
      proof (cases "fl x")
        case (Fin r)
        with le have "r \<le> 5764607523034235 / 576460752303423488" by simp
        then show ?thesis by (simp add: more_than_hundredth_def Fin fl_hundredth)
      next
        case PInf with le show ?thesis by simp
      next
        case NInf then show ?thesis by (simp add: more_than_hundredth_def)
      next
        case NaN then show ?thesis by (simp add: more_than_hundredth_def)
      qed
    qed
  next
    case c: False
    have "fl x = Fin (5764607523034235 / 576460752303423488)"
      by (rule fl_below_threshold) (use c False in simp_all)
    then show ?thesis by (simp add: more_than_hundredth_def fl_hundredth)
  qed
  with False show ?thesis by simp
qed

lemma differ_by_more_than_hundredth:
  "more_than_hundredth (abs_difference (Fin a) (Fin b))
     \<longleftrightarrow> 11529215046068471 / 1152921504606846976 \<le> \<bar>a - b\<bar>"
  by (simp add: more_than_hundredth_fl)

subsection \<open>The hours check on weeks of the tests\<close>

text \<open>
  The week of the test \<^verbatim>\<open>detects when a week's hours don't match the task sum\<close>, of
  10 hours with two tasks of 4 hours: the sum is below the hours, and the error is
  returned, with the values 10 and 8.
\<close>

lemma hours_mismatch_of_the_tests:
  "filter (\<lambda>e. type e = hours_mismatch)
     (validate_week toString p []
        \<lparr>week = Fin 1, focus = ''Basics'', hours = Fin 10,
         tasks = [\<lparr>title = ''T1'', effort_hours = Fin 4, deliverable = ''D1''\<rparr>,
                  \<lparr>title = ''T2'', effort_hours = Fin 4, deliverable = ''D2''\<rparr>],
         checkpoint = ''C1''\<rparr>)
     = [\<lparr>type = hours_mismatch,
         message = ''Week '' @ toString (Fin 1) @ '': 'hours' is '' @ toString (Fin 10)
           @ '' but task effort_hours sum to '' @ toString (Fin 8)
           @ ''. They must be equal.''\<rparr>]"
proof -
  have s: "taskSum [\<lparr>title = ''T1'', effort_hours = Fin 4, deliverable = ''D1''\<rparr>,
                    \<lparr>title = ''T2'', effort_hours = Fin 4, deliverable = ''D2''\<rparr>] = Fin 8"
    by (simp add: taskSum_def fl_eval)
  have r8: "round2 (Fin 8) = Fin 8" by (simp add: round2_def fl_eval)
  have r10: "round2 (Fin 10) = Fin 10" by (simp add: round2_def fl_eval)
  have d: "Math_abs (fsub (Fin 8) (Fin 10)) = Fin 2" by (simp add: fsub_def fl_eval)
  show ?thesis by (simp add: validate_week_def Let_def s r8 r10 d fl_hundredth)
qed

text \<open>
  The week of the test \<^verbatim>\<open>handles floating-point hour sums within tolerance\<close>, of 4
  hours with tasks of 1.1, 1.1 and 1.8 hours: no error.
\<close>

lemma hours_within_tolerance_of_the_tests:
  "filter (\<lambda>e. type e = hours_mismatch)
     (validate_week toString p []
        \<lparr>week = Fin 1, focus = ''Basics'', hours = Fin 4,
         tasks = [\<lparr>title = ''A'', effort_hours = fl (11 / 10), deliverable = ''D1''\<rparr>,
                  \<lparr>title = ''B'', effort_hours = fl (11 / 10), deliverable = ''D2''\<rparr>,
                  \<lparr>title = ''C'', effort_hours = fl (18 / 10), deliverable = ''D3''\<rparr>],
         checkpoint = ''Quiz''\<rparr>)
     = []"
proof -
  have s: "taskSum [\<lparr>title = ''A'', effort_hours = fl (11 / 10), deliverable = ''D1''\<rparr>,
                  \<lparr>title = ''B'', effort_hours = fl (11 / 10), deliverable = ''D2''\<rparr>,
                  \<lparr>title = ''C'', effort_hours = fl (9 / 5), deliverable = ''D3''\<rparr>] = Fin 4"
    by (simp add: taskSum_def fl_eval)
  have r4: "round2 (Fin 4) = Fin 4" by (simp add: round2_def fl_eval)
  have d: "Math_abs (fsub (Fin 4) (Fin 4)) = Fin 0" by (simp add: fsub_def fl_eval)
  show ?thesis by (simp add: validate_week_def Let_def s r4 d fl_hundredth)
qed

text \<open>
  The rounding comes before the difference: a week of 0.021 hours with one task of
  0.006 hours has the rounded values 0.02 and 0.01 and no error, although the two
  numbers themselves differ by more than \<^verbatim>\<open>0.01\<close>.
\<close>

lemma rounding_before_the_difference:
  "filter (\<lambda>e. type e = hours_mismatch)
     (validate_week toString p []
        \<lparr>week = Fin 1, focus = f, hours = fl (21 / 1000),
         tasks = [\<lparr>title = t, effort_hours = fl (6 / 1000), deliverable = d\<rparr>],
         checkpoint = c\<rparr>)
     = []"
  "num_less (fl (1 / 100)) (Math_abs (fsub (fl (6 / 1000)) (fl (21 / 1000))))"
proof -
  have h: "fl (21 / 1000) = Fin (6052837899185947 / 288230376151711744)"
    by (simp add: fl_eval)
  have e: "fl (3 / 500) = Fin (3458764513820541 / 576460752303423488)"
    by (simp add: fl_eval)
  have s: "taskSum [\<lparr>title = t, effort_hours = Fin (3458764513820541 / 576460752303423488),
                     deliverable = d\<rparr>] = Fin (3458764513820541 / 576460752303423488)"
    by (simp add: taskSum_def fl_eval)
  have rs: "round2 (Fin (3458764513820541 / 576460752303423488))
              = Fin (5764607523034235 / 576460752303423488)"
    by (simp add: round2_def fl_eval)
  have rh: "round2 (Fin (6052837899185947 / 288230376151711744))
              = Fin (5764607523034235 / 288230376151711744)"
    by (simp add: round2_def fl_eval)
  have d: "Math_abs (fsub (Fin (5764607523034235 / 576460752303423488))
                          (Fin (5764607523034235 / 288230376151711744)))
             = Fin (5764607523034235 / 576460752303423488)"
    by (simp add: fsub_def fl_eval)
  show "filter (\<lambda>e. type e = hours_mismatch)
     (validate_week toString p []
        \<lparr>week = Fin 1, focus = f, hours = fl (21 / 1000),
         tasks = [\<lparr>title = t, effort_hours = fl (6 / 1000), deliverable = d\<rparr>],
         checkpoint = c\<rparr>)
     = []"
    by (simp add: validate_week_def Let_def h e s rs rh d fl_hundredth)
  have d': "Math_abs (fsub (Fin (3458764513820541 / 576460752303423488))
                          (Fin (6052837899185947 / 288230376151711744)))
             = Fin (8646911284551353 / 576460752303423488)"
    by (simp add: fsub_def fl_eval)
  show "num_less (fl (1 / 100)) (Math_abs (fsub (fl (6 / 1000)) (fl (21 / 1000))))"
    by (simp add: h e d' fl_hundredth)
qed

text \<open>
  Two rounded values one hundredth apart: the difference of the numbers decides.  The
  difference of the numbers 0.02 and 0.01 is the number \<^verbatim>\<open>0.01\<close>, and no error is
  returned; the difference of the numbers 1.07 and 1.06 is
  \<open>45035996273705 / 2 ^ 52\<close>, above \<^verbatim>\<open>0.01\<close>, and the error is returned.
\<close>

lemma one_hundredth_apart:
  "filter (\<lambda>e. type e = hours_mismatch)
     (validate_week toString p []
        \<lparr>week = Fin 1, focus = f, hours = fl (2 / 100),
         tasks = [\<lparr>title = t, effort_hours = fl (1 / 100), deliverable = d\<rparr>],
         checkpoint = c\<rparr>)
     = []"
  "filter (\<lambda>e. type e = hours_mismatch)
     (validate_week toString p []
        \<lparr>week = Fin 1, focus = f, hours = fl (107 / 100),
         tasks = [\<lparr>title = t, effort_hours = fl (106 / 100), deliverable = d\<rparr>],
         checkpoint = c\<rparr>)
     = [\<lparr>type = hours_mismatch,
         message = ''Week '' @ toString (Fin 1) @ '': 'hours' is '' @ toString (fl (107 / 100))
           @ '' but task effort_hours sum to '' @ toString (fl (106 / 100))
           @ ''. They must be equal.''\<rparr>]"
proof -
  have h: "fl (1 / 50) = Fin (5764607523034235 / 288230376151711744)"
    by (simp add: fl_eval)
  have s: "taskSum [\<lparr>title = t, effort_hours = Fin (5764607523034235 / 576460752303423488),
                     deliverable = d\<rparr>] = Fin (5764607523034235 / 576460752303423488)"
    by (simp add: taskSum_def fl_eval)
  have rs: "round2 (Fin (5764607523034235 / 576460752303423488))
              = Fin (5764607523034235 / 576460752303423488)"
    by (simp add: round2_def fl_eval)
  have rh: "round2 (Fin (5764607523034235 / 288230376151711744))
              = Fin (5764607523034235 / 288230376151711744)"
    by (simp add: round2_def fl_eval)
  have d: "Math_abs (fsub (Fin (5764607523034235 / 576460752303423488))
                          (Fin (5764607523034235 / 288230376151711744)))
             = Fin (5764607523034235 / 576460752303423488)"
    by (simp add: fsub_def fl_eval)
  show "filter (\<lambda>e. type e = hours_mismatch)
     (validate_week toString p []
        \<lparr>week = Fin 1, focus = f, hours = fl (2 / 100),
         tasks = [\<lparr>title = t, effort_hours = fl (1 / 100), deliverable = d\<rparr>],
         checkpoint = c\<rparr>)
     = []"
    by (simp add: validate_week_def Let_def h fl_hundredth s rs rh d)
  have h': "fl (107 / 100) = Fin (4818851601286431 / 4503599627370496)"
    by (simp add: fl_eval)
  have e': "fl (53 / 50) = Fin (2386907802506363 / 2251799813685248)"
    by (simp add: fl_eval)
  have s': "taskSum [\<lparr>title = t, effort_hours = Fin (2386907802506363 / 2251799813685248),
                     deliverable = d\<rparr>] = Fin (2386907802506363 / 2251799813685248)"
    by (simp add: taskSum_def fl_eval)
  have rs': "round2 (Fin (2386907802506363 / 2251799813685248))
              = Fin (2386907802506363 / 2251799813685248)"
    by (simp add: round2_def fl_eval)
  have rh': "round2 (Fin (4818851601286431 / 4503599627370496))
              = Fin (4818851601286431 / 4503599627370496)"
    by (simp add: round2_def fl_eval)
  have d': "Math_abs (fsub (Fin (2386907802506363 / 2251799813685248))
                          (Fin (4818851601286431 / 4503599627370496)))
             = Fin (45035996273705 / 4503599627370496)"
    by (simp add: fsub_def fl_eval)
  show "filter (\<lambda>e. type e = hours_mismatch)
     (validate_week toString p []
        \<lparr>week = Fin 1, focus = f, hours = fl (107 / 100),
         tasks = [\<lparr>title = t, effort_hours = fl (106 / 100), deliverable = d\<rparr>],
         checkpoint = c\<rparr>)
     = [\<lparr>type = hours_mismatch,
         message = ''Week '' @ toString (Fin 1) @ '': 'hours' is '' @ toString (fl (107 / 100))
           @ '' but task effort_hours sum to '' @ toString (fl (106 / 100))
           @ ''. They must be equal.''\<rparr>]"
    by (simp add: validate_week_def Let_def h' e' s' rs' rh' d' fl_hundredth)
qed

section \<open>Plans of one week\<close>

lemma replicate_2: "replicate 2 x = [x, x]"
  by (simp add: numeral_2_eq_2)

lemma upt_1_2: "[1..<1 + 1] = [1::nat]"
  by (simp add: upt_rec)

lemma array_length_1: "array_length (Fin 1) = Inr 1"
  by (simp add: array_length_def)

lemma phaseOf_1_1: "phaseOf (Fin 1) (Fin 1) = application"
  by (simp add: phaseOf_def num_eq_def)

lemmas gen_eval = generatePlan_def base_def array_length_1 upt_1_2 phaseOf_1_1 week_step_def
  applicationBank_def focusLine_def checkpoint_text_def Let_def

subsection \<open>The budget of the tests\<close>

text \<open>
  The test of a single week: for one week and the budget of 10 hours of \<open>base\<close> the
  three tasks get 3.3, 3.3 and 3.4 hours, the week 10 hours, and \<open>validatePlan\<close>
  finds nothing.
\<close>

lemma tasksPerWeek_10: "tasksPerWeek (Fin 10) = 3"
  by (simp add: tasksPerWeek_def)

lemma distributeHours_10:
  "distributeHours (Fin 10) (Suc (Suc (Suc 0)))
     = [Fin (3715469692580659 / 1125899906842624), Fin (3715469692580659 / 1125899906842624),
        Fin (7656119366529843 / 2251799813685248)]"
  by (simp add: distributeHours_def fsub_def fl_eval)

lemma taskSum_10:
  "taskSum [\<lparr>title = a1, effort_hours = Fin (3715469692580659 / 1125899906842624), deliverable = b1\<rparr>,
            \<lparr>title = a2, effort_hours = Fin (3715469692580659 / 1125899906842624), deliverable = b2\<rparr>,
            \<lparr>title = a3, effort_hours = Fin (7656119366529843 / 2251799813685248), deliverable = b3\<rparr>]
     = Fin 10"
  by (simp add: taskSum_def fl_eval)

lemma round2_10: "round2 (Fin 10) = Fin 10"
  by (simp add: round2_def fl_eval)

lemma generatePlan_single_week:
  "\<exists>r. generatePlan (base\<lparr>in_weeks := Fin 1\<rparr>) = Inr r
     \<and> weeks (result_plan r) = Fin 1
     \<and> hours_per_week (result_plan r) = Fin 10
     \<and> map week (plan (result_plan r)) = [Fin 1]
     \<and> map hours (plan (result_plan r)) = [Fin 10]
     \<and> map (\<lambda>w. taskSum (tasks w)) (plan (result_plan r)) = [Fin 10]"
  by (simp add: gen_eval tasksPerWeek_10 distributeHours_10 taskSum_10 round2_10)

lemma validatePlan_by_fields:
  assumes "weeks p = Fin 1" "hours_per_week p = b" "map week (plan p) = [k]"
    "map hours (plan p) = [h]" "map (\<lambda>w. taskSum (tasks w)) (plan p) = [s]"
  shows "validatePlan toString p =
           weeks_count_check toString p @
           (if num_less (fl (1 / 100)) (Math_abs (fsub (round2 s) (round2 h)))
            then [\<lparr>type = hours_mismatch,
                   message = ''Week '' @ toString k @ '': 'hours' is ''
                     @ toString (round2 h) @ '' but task effort_hours sum to ''
                     @ toString (round2 s) @ ''. They must be equal.''\<rparr>]
            else []) @
           (if num_less b (round2 h)
            then [\<lparr>type = hours_exceeded,
                   message = ''Week '' @ toString k @ '': '' @ toString (round2 h)
                     @ ''h exceeds the hours_per_week limit of '' @ toString b @ ''h.''\<rparr>]
            else [])"
proof -
  obtain w where p: "plan p = [w]" using assms(3) by (cases "plan p") auto
  have f: "week w = k" "hours w = h" "taskSum (tasks w) = s" using assms(3,4,5) p by simp_all
  show ?thesis
    by (simp add: validatePlan_def validate_week_def weeks_count_check_def p f assms(1,2) Let_def)
qed


lemma single_week_plan_is_valid:
  "\<exists>r. generatePlan (base\<lparr>in_weeks := Fin 1\<rparr>) = Inr r
     \<and> validatePlan toString (result_plan r) = []"
proof -
  obtain r where g: "generatePlan (base\<lparr>in_weeks := Fin 1\<rparr>) = Inr r
     \<and> weeks (result_plan r) = Fin 1
     \<and> hours_per_week (result_plan r) = Fin 10
     \<and> map week (plan (result_plan r)) = [Fin 1]
     \<and> map hours (plan (result_plan r)) = [Fin 10]
     \<and> map (\<lambda>w. taskSum (tasks w)) (plan (result_plan r)) = [Fin 10]"
    using generatePlan_single_week by (rule exE)
  have r: "generatePlan (base\<lparr>in_weeks := Fin 1\<rparr>) = Inr r" using g by (rule conjunct1)
  have f: "weeks (result_plan r) = Fin 1" "hours_per_week (result_plan r) = Fin 10"
    "map week (plan (result_plan r)) = [Fin 1]" "map hours (plan (result_plan r)) = [Fin 10]"
    "map (\<lambda>w. taskSum (tasks w)) (plan (result_plan r)) = [Fin 10]"
    using g by simp_all
  have len: "length (plan (result_plan r)) = 1"
    using arg_cong[OF f(3), of length] by simp
  have d: "fsub (Fin 10) (Fin 10) = Fin 0" by (simp add: fsub_def fl_def)
  have v: "validatePlan toString (result_plan r) = []"
    by (simp add: validatePlan_by_fields[OF f] weeks_count_check_def len f(1) num_eq_def
          round2_10 d fl_hundredth)
  show ?thesis
  proof (rule exI[where x = r], rule conjI)
    show "generatePlan (base\<lparr>in_weeks := Fin 1\<rparr>) = Inr r" by (rule r)
    show "validatePlan toString (result_plan r) = []" by (rule v)
  qed
qed

text \<open>The same plan passes the schema, and parsing its \<open>rawJson\<close> gives it back.\<close>

lemma single_week_plan_passes_schema:
  "\<exists>r. generatePlan (base\<lparr>in_weeks := Fin 1\<rparr>) = Inr r
     \<and> LearningPlanSchema (result_plan r)
     \<and> JSON_parse (rawJson r) = LearningPlan_value (result_plan r)"
  by (simp add: gen_eval tasksPerWeek_10 distributeHours_10 taskSum_10 round2_10
        LearningPlanSchema_def WeekSchema_def TaskSchema_def z_positive_def z_int_positive_def
        LearningPlan_value_def Week_value_def Task_value_def)

section \<open>Inputs on which the generator breaks its invariants\<close>

subsection \<open>A budget with three decimals\<close>

lemma fl_3999: "fl (3999 / 1000) = Fin (9004947454927307 / 2251799813685248)"
  by (simp add: fl_eval)

lemma tasksPerWeek_3999: "tasksPerWeek (Fin (9004947454927307 / 2251799813685248)) = 2"
  by (simp add: tasksPerWeek_def)

lemma distributeHours_3999:
  "distributeHours (Fin (9004947454927307 / 2251799813685248)) 2 = [Fin 2, Fin 2]"
  by (simp add: distributeHours_def fsub_def replicate_2 fl_eval)

lemma distributeHours_3999_Suc:
  "distributeHours (Fin (9004947454927307 / 2251799813685248)) (Suc (Suc 0)) = [Fin 2, Fin 2]"
  using distributeHours_3999 by (simp add: numeral_2_eq_2)

lemma round2_4: "round2 (Fin 4) = Fin 4"
  by (simp add: round2_def fl_eval)

lemma taskSum_2_2:
  "taskSum [\<lparr>title = a, effort_hours = Fin 2, deliverable = b\<rparr>,
            \<lparr>title = c, effort_hours = Fin 2, deliverable = d\<rparr>] = Fin 4"
  by (simp add: taskSum_def fl_eval)

lemma generatePlan_3999:
  "\<exists>r. generatePlan (base\<lparr>in_weeks := Fin 1, in_hours_per_week := fl (3999 / 1000)\<rparr>) = Inr r
     \<and> weeks (result_plan r) = Fin 1
     \<and> hours_per_week (result_plan r) = Fin (9004947454927307 / 2251799813685248)
     \<and> plan (result_plan r) =
         [\<lparr>week = Fin 1, focus = ''Project Design & Kickoff'', hours = Fin 4,
           tasks =
             [\<lparr>title = ''Design the capstone project architecture for goal: \"Build a REST API\"'',
               effort_hours = Fin 2,
               deliverable = ''Architecture diagram, feature list, and tech-decision log''\<rparr>,
              \<lparr>title = ''Implement the core skeleton of the capstone project'',
               effort_hours = Fin 2,
               deliverable = ''Bootstrapped repo with main modules stubbed out''\<rparr>],
           checkpoint = ''Capstone progress demonstrates ability to: Build a REST API''\<rparr>]"
  by (simp add: gen_eval fl_3999 tasksPerWeek_3999 distributeHours_3999_Suc taskSum_2_2 round2_4)

text \<open>
  Claim C1 fails for a budget with more than two decimals.  For one week and
  \<open>hours_per_week = 3.999\<close> (the number \<open>fl (3999 / 1000)\<close>) the two tasks get
  2 hours each and the week 4 hours, and \<open>validatePlan\<close> returns one
  \<open>hours_exceeded\<close> error on the generated plan, not the empty list.
\<close>
theorem validatePlan_rejects_generated_plan:
  "\<exists>r. generatePlan (base\<lparr>in_weeks := Fin 1, in_hours_per_week := fl (3999 / 1000)\<rparr>) = Inr r
     \<and> validatePlan toString (result_plan r) =
         [\<lparr>type = hours_exceeded,
           message = ''Week '' @ toString (Fin 1) @ '': '' @ toString (Fin 4)
             @ ''h exceeds the hours_per_week limit of '' @ toString (fl (3999 / 1000))
             @ ''h.''\<rparr>]"
proof -
  obtain r where r: "generatePlan (base\<lparr>in_weeks := Fin 1, in_hours_per_week := fl (3999 / 1000)\<rparr>) = Inr r"
    and f: "weeks (result_plan r) = Fin 1"
      "hours_per_week (result_plan r) = Fin (9004947454927307 / 2251799813685248)"
      "plan (result_plan r) =
         [\<lparr>week = Fin 1, focus = ''Project Design & Kickoff'', hours = Fin 4,
           tasks =
             [\<lparr>title = ''Design the capstone project architecture for goal: \"Build a REST API\"'',
               effort_hours = Fin 2,
               deliverable = ''Architecture diagram, feature list, and tech-decision log''\<rparr>,
              \<lparr>title = ''Implement the core skeleton of the capstone project'',
               effort_hours = Fin 2,
               deliverable = ''Bootstrapped repo with main modules stubbed out''\<rparr>],
           checkpoint = ''Capstone progress demonstrates ability to: Build a REST API''\<rparr>]"
    using generatePlan_3999 by blast
  have d: "fsub (Fin 4) (Fin 4) = Fin 0" by (simp add: fsub_def fl_def)
  have v: "validatePlan toString (result_plan r) =
         [\<lparr>type = hours_exceeded,
           message = ''Week '' @ toString (Fin 1) @ '': '' @ toString (Fin 4)
             @ ''h exceeds the hours_per_week limit of '' @ toString (fl (3999 / 1000))
             @ ''h.''\<rparr>]"
    by (simp add: validatePlan_def validate_week_def f num_eq_def taskSum_2_2 round2_4 d
          fl_hundredth fl_3999 Let_def)
  show ?thesis
  proof (rule exI[where x = r], rule conjI)
    show "generatePlan (base\<lparr>in_weeks := Fin 1, in_hours_per_week := fl (3999 / 1000)\<rparr>) = Inr r"
      by (rule r)
    show "validatePlan toString (result_plan r) =
         [\<lparr>type = hours_exceeded,
           message = ''Week '' @ toString (Fin 1) @ '': '' @ toString (Fin 4)
             @ ''h exceeds the hours_per_week limit of '' @ toString (fl (3999 / 1000))
             @ ''h.''\<rparr>]"
      by (rule v)
  qed
qed

text \<open>
  Claim C3 fails on the same inputs: the hours of the week and the rounded sum of its
  tasks' effort are both 4, which is not the budget 3.999.
\<close>
theorem generatePlan_hours_not_budget:
  "\<exists>r. generatePlan (base\<lparr>in_weeks := Fin 1, in_hours_per_week := fl (3999 / 1000)\<rparr>) = Inr r
     \<and> map hours (plan (result_plan r)) = [Fin 4]
     \<and> map (\<lambda>w. round2 (taskSum (tasks w))) (plan (result_plan r)) = [Fin 4]
     \<and> hours_per_week (result_plan r) = Fin (9004947454927307 / 2251799813685248)
     \<and> \<not> num_eq (Fin 4) (hours_per_week (result_plan r))"
proof -
  obtain r where r: "generatePlan (base\<lparr>in_weeks := Fin 1, in_hours_per_week := fl (3999 / 1000)\<rparr>) = Inr r"
    and f: "hours_per_week (result_plan r) = Fin (9004947454927307 / 2251799813685248)"
      "plan (result_plan r) =
         [\<lparr>week = Fin 1, focus = ''Project Design & Kickoff'', hours = Fin 4,
           tasks =
             [\<lparr>title = ''Design the capstone project architecture for goal: \"Build a REST API\"'',
               effort_hours = Fin 2,
               deliverable = ''Architecture diagram, feature list, and tech-decision log''\<rparr>,
              \<lparr>title = ''Implement the core skeleton of the capstone project'',
               effort_hours = Fin 2,
               deliverable = ''Bootstrapped repo with main modules stubbed out''\<rparr>],
           checkpoint = ''Capstone progress demonstrates ability to: Build a REST API''\<rparr>]"
    using generatePlan_3999 by blast
  have "map hours (plan (result_plan r)) = [Fin 4]
     \<and> map (\<lambda>w. round2 (taskSum (tasks w))) (plan (result_plan r)) = [Fin 4]
     \<and> hours_per_week (result_plan r) = Fin (9004947454927307 / 2251799813685248)
     \<and> \<not> num_eq (Fin 4) (hours_per_week (result_plan r))"
    by (simp add: f taskSum_2_2 round2_4 num_eq_def)
  with r have "generatePlan (base\<lparr>in_weeks := Fin 1, in_hours_per_week := fl (3999 / 1000)\<rparr>) = Inr r
     \<and> map hours (plan (result_plan r)) = [Fin 4]
     \<and> map (\<lambda>w. round2 (taskSum (tasks w))) (plan (result_plan r)) = [Fin 4]
     \<and> hours_per_week (result_plan r) = Fin (9004947454927307 / 2251799813685248)
     \<and> \<not> num_eq (Fin 4) (hours_per_week (result_plan r))"
    by (rule conjI)
  then show ?thesis by (rule exI)
qed

subsection \<open>A budget below a tenth of an hour\<close>

lemma fl_005: "fl (1 / 20) = Fin (3602879701896397 / 72057594037927936)"
  by (simp add: fl_eval)

lemma tasksPerWeek_005: "tasksPerWeek (Fin (3602879701896397 / 72057594037927936)) = 2"
  by (simp add: tasksPerWeek_def)

lemma distributeHours_005:
  "distributeHours (Fin (3602879701896397 / 72057594037927936)) (Suc (Suc 0))
     = [Fin 0, Fin (3602879701896397 / 72057594037927936)]"
  by (simp add: distributeHours_def fsub_def fl_eval)

text \<open>
  Claim C4 fails for a small budget.  For one week and \<open>hours_per_week = 0.05\<close>
  (the number \<open>fl (1 / 20)\<close>) the unit rounds to 0, so that the first task has an
  effort of 0 hours and the plan does not pass \<open>LearningPlanSchema\<close>.
\<close>
theorem generatePlan_zero_effort:
  "\<exists>r. generatePlan (base\<lparr>in_weeks := Fin 1, in_hours_per_week := fl (1 / 20)\<rparr>) = Inr r
     \<and> map (\<lambda>w. map effort_hours (tasks w)) (plan (result_plan r))
         = [[Fin 0, Fin (3602879701896397 / 72057594037927936)]]
     \<and> \<not> LearningPlanSchema (result_plan r)"
  by (simp add: gen_eval fl_005 tasksPerWeek_005 distributeHours_005 LearningPlanSchema_def
        WeekSchema_def TaskSchema_def z_positive_def)

subsection \<open>A budget that overflows\<close>

lemma fl_1e308: "fl (10 ^ 308) = Fin 100000000000000001097906362944045541740492309677311846336810682903157585404911491537163328978494688899061249669721172515611590283743140088328307009198146046031271664502933027185697489699588559043338384466165001178426897626212945177628091195786707458122783970171784415105291802893207873272974885715430223118336"
  by (simp add: fl_eval)

lemma tasksPerWeek_1e308: "tasksPerWeek (Fin 100000000000000001097906362944045541740492309677311846336810682903157585404911491537163328978494688899061249669721172515611590283743140088328307009198146046031271664502933027185697489699588559043338384466165001178426897626212945177628091195786707458122783970171784415105291802893207873272974885715430223118336) = 4"
  by (simp add: tasksPerWeek_def)

lemma fdiv_1e308: "fdiv (Fin 100000000000000001097906362944045541740492309677311846336810682903157585404911491537163328978494688899061249669721172515611590283743140088328307009198146046031271664502933027185697489699588559043338384466165001178426897626212945177628091195786707458122783970171784415105291802893207873272974885715430223118336) (Fin 4) = Fin 25000000000000000274476590736011385435123077419327961584202670725789396351227872884290832244623672224765312417430293128902897570935785022082076752299536511507817916125733256796424372424897139760834596116541250294606724406553236294407022798946676864530695992542946103776322950723301968318243721428857555779584"
  by (simp add: fl_eval)

lemma fmul_1e308: "fmul (Fin 25000000000000000274476590736011385435123077419327961584202670725789396351227872884290832244623672224765312417430293128902897570935785022082076752299536511507817916125733256796424372424897139760834596116541250294606724406553236294407022798946676864530695992542946103776322950723301968318243721428857555779584) (Fin 10) = PInf"
  by (simp add: fl_eval)

lemma distributeHours_1e308:
  "distributeHours (Fin 100000000000000001097906362944045541740492309677311846336810682903157585404911491537163328978494688899061249669721172515611590283743140088328307009198146046031271664502933027185697489699588559043338384466165001178426897626212945177628091195786707458122783970171784415105291802893207873272974885715430223118336) (Suc (Suc (Suc (Suc 0))))
     = [PInf, PInf, PInf, NInf]"
proof -
  have n: "real (Suc (Suc (Suc (Suc 0)))) = 4" by simp
  show ?thesis
    unfolding distributeHours_def n fdiv_1e308 fmul_1e308
    by (simp add: fsub_def inf_of_sign_def)
qed

lemma taskSum_inf:
  "taskSum [\<lparr>title = a1, effort_hours = PInf, deliverable = b1\<rparr>,
            \<lparr>title = a2, effort_hours = PInf, deliverable = b2\<rparr>,
            \<lparr>title = a3, effort_hours = PInf, deliverable = b3\<rparr>,
            \<lparr>title = a4, effort_hours = NInf, deliverable = b4\<rparr>] = NaN"
  by (simp add: taskSum_def fl_def)

lemma round2_NaN: "round2 NaN = NaN"
  by (simp add: round2_def)

lemma generatePlan_1e308:
  "\<exists>r. generatePlan (base\<lparr>in_weeks := Fin 1, in_hours_per_week := fl (10 ^ 308)\<rparr>) = Inr r
     \<and> map (\<lambda>w. map effort_hours (tasks w)) (plan (result_plan r)) = [[PInf, PInf, PInf, NInf]]
     \<and> map hours (plan (result_plan r)) = [NaN]"
  unfolding fl_1e308
  by (simp add: gen_eval tasksPerWeek_1e308 distributeHours_1e308 taskSum_inf round2_NaN)

lemma rawJson_generatePlan:
  "generatePlan inputs = Inr r \<Longrightarrow> rawJson r = JSON_stringify (LearningPlan_value (result_plan r))"
  by (auto simp: generatePlan_def Let_def split: sum.splits)

lemma JSON_loses_NaN_hours:
  assumes "map hours (plan p) = NaN # hs"
  shows "JSON_parse (JSON_stringify (LearningPlan_value p)) \<noteq> LearningPlan_value p"
proof -
  obtain w ws where p: "plan p = w # ws" and h: "hours w = NaN"
    using assms by (cases "plan p") auto
  show ?thesis by (simp add: LearningPlan_value_def Week_value_def p h)
qed

text \<open>
  Claim C9 fails for a budget near the largest number.  For one week and
  \<open>hours_per_week = 1e308\<close> (the number \<open>fl (10 ^ 308)\<close>) the unit overflows, the
  efforts are infinite and the hours of the week are NaN; \<^verbatim>\<open>JSON.stringify\<close>
  writes \<^verbatim>\<open>null\<close> for them, and parsing \<open>rawJson\<close> does not give the plan back.
\<close>
theorem rawJson_round_trip_fails:
  "\<exists>r. generatePlan (base\<lparr>in_weeks := Fin 1, in_hours_per_week := fl (10 ^ 308)\<rparr>) = Inr r
     \<and> map hours (plan (result_plan r)) = [NaN]
     \<and> JSON_parse (rawJson r) \<noteq> LearningPlan_value (result_plan r)"
proof -
  obtain r where g: "generatePlan (base\<lparr>in_weeks := Fin 1, in_hours_per_week := fl (10 ^ 308)\<rparr>) = Inr r
     \<and> map (\<lambda>w. map effort_hours (tasks w)) (plan (result_plan r)) = [[PInf, PInf, PInf, NInf]]
     \<and> map hours (plan (result_plan r)) = [NaN]"
    using generatePlan_1e308 by (rule exE)
  have r: "generatePlan (base\<lparr>in_weeks := Fin 1, in_hours_per_week := fl (10 ^ 308)\<rparr>) = Inr r"
    using g by (rule conjunct1)
  have h: "map hours (plan (result_plan r)) = [NaN]"
    using g by (rule conjunct2[OF conjunct2])
  have j: "JSON_parse (rawJson r) \<noteq> LearningPlan_value (result_plan r)"
    unfolding rawJson_generatePlan[OF r] by (rule JSON_loses_NaN_hours[OF h])
  show ?thesis
  proof (rule exI[where x = r], intro conjI)
    show "generatePlan (base\<lparr>in_weeks := Fin 1, in_hours_per_week := fl (10 ^ 308)\<rparr>) = Inr r"
      by (rule r)
    show "map hours (plan (result_plan r)) = [NaN]" by (rule h)
    show "JSON_parse (rawJson r) \<noteq> LearningPlan_value (result_plan r)" by (rule j)
  qed
qed

end
